theory Spec2Isabelle
  imports Main "HOL-Library.Word"
begin

section \<open>Python values used by main.py\<close>

text \<open>
  A Python \<open>str\<close> is a sequence of Unicode code points, so it is modelled as a list of
  code points. The status tags and messages of main.py are Cyrillic; they are written
  below as code point lists. ASCII literals are written \<open>asc ''...''\<close>.
\<close>

type_synonym pystr = "nat list"

definition asc :: "string \<Rightarrow> pystr" where
  "asc s = map of_char s"

text \<open>
  The value returned by \<open>response.json()\<close>: \<open>None\<close>, \<open>bool\<close>, \<open>int\<close>, \<open>float\<close>
  (an IEEE double, kept as its 64 bits), \<open>str\<close>, \<open>list\<close> or \<open>dict\<close> with \<open>str\<close> keys.
  A \<open>dict\<close> is an association list read with \<open>map_of\<close>.
\<close>

datatype json =
    JNull
  | JBool bool
  | JInt int
  | JFloat "64 word"
  | JStr pystr
  | JList "json list"
  | JDict "(pystr \<times> json) list"

text \<open>
  Exceptions (subclasses of \<open>Exception\<close>). The handlers of main.py only tell
  \<open>requests.exceptions.HTTPError\<close> from everything else. An exception raised by a library
  call carries its text \<open>str(e)\<close>; the ones raised by the interpreter are told apart by
  what raised them, and their text is the interpreter's.
\<close>

datatype exn =
    HTTPError pystr
  | LibError pystr
  | ValueError pystr
  | TypeErrorIn json
  | TypeErrorIndex json
  | KeyError pystr
  | AttributeError

record request =
  target :: pystr
  headers :: "(pystr \<times> pystr) list"
  payload :: "(pystr \<times> pystr) list"

record response =
  status_code :: nat
  http_error_msg :: pystr
  body :: "exn + json"

text \<open>
  What main.py does to the outside, in the order it does it. \<open>SkipWarning n\<close> is the
  warning logged for the empty URL of row \<open>n\<close>.
\<close>

datatype event =
    HttpGet request
  | HttpPost request
  | TokenRefresh
  | FileExists pystr
  | FileRead pystr
  | FileWrite pystr
  | SkipWarning nat
  | Sleep

text \<open>
  All that is not in main.py: the configuration read at import time, the library
  functions it calls, and the answers of the remote services and of the file system.
  The answer to a call may depend on everything done before it (the event list).
  \<^item> \<open>urlparse\<close>: \<open>urllib.parse.urlparse\<close>, giving \<open>(scheme, netloc)\<close> or raising;
  \<^item> \<open>py_repr\<close>: \<open>str()\<close> of a value that is not a \<open>str\<close>;
  \<^item> \<open>json_dumps\<close>: \<open>json.dumps\<close>;
  \<^item> \<open>builtin_text\<close>: \<open>str(e)\<close> of an exception raised by the interpreter;
  \<^item> \<open>http_get\<close>, \<open>http_post\<close>: \<open>requests.get\<close>, \<open>requests.post\<close>;
  \<^item> \<open>refresh_token\<close>: \<open>credentials.refresh(Request())\<close> followed by \<open>credentials.token\<close>;
  \<^item> \<open>open_for_write\<close>: whether \<open>open(path, mode="w")\<close> raises.
\<close>

record env =
  YANDEX_API_TOKEN :: pystr
  SITE_URL :: pystr
  urlparse :: "pystr \<Rightarrow> exn + (pystr \<times> pystr)"
  py_repr :: "json \<Rightarrow> pystr"
  json_dumps :: "json \<Rightarrow> pystr"
  builtin_text :: "exn \<Rightarrow> pystr"
  http_get :: "event list \<Rightarrow> request \<Rightarrow> exn + response"
  http_post :: "event list \<Rightarrow> request \<Rightarrow> exn + response"
  refresh_token :: "event list \<Rightarrow> exn + pystr"
  open_for_write :: "event list \<Rightarrow> pystr \<Rightarrow> exn option"

subsection \<open>Built-in operations\<close>

definition str_exn :: "env \<Rightarrow> exn \<Rightarrow> pystr" where
  "str_exn E e =
     (case e of HTTPError t \<Rightarrow> t | LibError t \<Rightarrow> t | ValueError t \<Rightarrow> t
      | _ \<Rightarrow> builtin_text E e)"

definition py_str :: "env \<Rightarrow> json \<Rightarrow> pystr" where
  "py_str E v = (case v of JStr s \<Rightarrow> s | _ \<Rightarrow> py_repr E v)"

fun is_substr :: "pystr \<Rightarrow> pystr \<Rightarrow> bool" where
  "is_substr k [] = (k = [])"
| "is_substr k (c # cs) = (take (length k) (c # cs) = k \<or> is_substr k cs)"

text \<open>\<open>k in v\<close> for a \<open>str\<close> \<open>k\<close>: key of a dict, element of a list, substring of a str;
  a \<open>TypeError\<close> on any other value.\<close>

fun py_in :: "pystr \<Rightarrow> json \<Rightarrow> exn + bool" where
  "py_in k (JDict kvs) = Inr (k \<in> set (map fst kvs))"
| "py_in k (JList xs) = Inr (JStr k \<in> set xs)"
| "py_in k (JStr s) = Inr (is_substr k s)"
| "py_in k v = Inl (TypeErrorIn v)"

text \<open>\<open>v[k]\<close> for a \<open>str\<close> \<open>k\<close>: the value of a dict, a \<open>TypeError\<close> on anything else.\<close>

fun py_getitem :: "json \<Rightarrow> pystr \<Rightarrow> exn + json" where
  "py_getitem (JDict kvs) k =
     (case map_of kvs k of Some v \<Rightarrow> Inr v | None \<Rightarrow> Inl (KeyError k))"
| "py_getitem v k = Inl (TypeErrorIndex v)"

text \<open>\<open>str.isspace\<close> for one code point, and \<open>str.strip()\<close>.\<close>

definition is_space :: "nat \<Rightarrow> bool" where
  "is_space c \<longleftrightarrow>
     (9 \<le> c \<and> c \<le> 13) \<or> (28 \<le> c \<and> c \<le> 32) \<or> c = 133 \<or> c = 160 \<or> c = 5760
     \<or> (8192 \<le> c \<and> c \<le> 8202) \<or> c = 8232 \<or> c = 8233 \<or> c = 8239 \<or> c = 8287
     \<or> c = 12288"

definition strip :: "pystr \<Rightarrow> pystr" where
  "strip s = rev (dropWhile is_space (rev (dropWhile is_space s)))"

text \<open>\<open>response.raise_for_status()\<close>: an \<open>HTTPError\<close> for a status from 400 to 599.\<close>

definition raise_for_status :: "response \<Rightarrow> exn + unit" where
  "raise_for_status r =
     (if 400 \<le> status_code r \<and> status_code r < 600
      then Inl (HTTPError (http_error_msg r)) else Inr ())"

section \<open>Constants of main.py\<close>

definition YANDEX_API_BASE :: pystr where
  "YANDEX_API_BASE = asc ''https://api.webmaster.yandex.net/v4''"

definition YANDEX_HEADERS :: "env \<Rightarrow> (pystr \<times> pystr) list" where
  "YANDEX_HEADERS E =
     [(asc ''Authorization'', asc ''OAuth '' @ YANDEX_API_TOKEN E),
      (asc ''Content-Type'', asc ''application/json'')]"

definition GOOGLE_API_BASE :: pystr where
  "GOOGLE_API_BASE = asc ''https://indexing.googleapis.com/v3/urlNotifications:publish''"

text \<open>The three status tags: U+0443 U+0441 U+043F U+0435 U+0448 U+043D U+043E
  ("successfully"), the same with the prefix U+043D U+0435 ("unsuccessfully"), and the
  first followed by \<open> (... task_id)\<close> ("successfully (without task_id)").\<close>

definition st_success :: pystr where
  "st_success = [0x443, 0x441, 0x43F, 0x435, 0x448, 0x43D, 0x43E]"

definition st_failure :: pystr where
  "st_failure = [0x43D, 0x435, 0x443, 0x441, 0x43F, 0x435, 0x448, 0x43D, 0x43E]"

definition st_success_no_task_id :: pystr where
  "st_success_no_task_id =
     [0x443, 0x441, 0x43F, 0x435, 0x448, 0x43D, 0x43E, 0x20, 0x28, 0x431, 0x435, 0x437, 0x20]
     @ asc ''task_id)''"

text \<open>The message prefixes: "API error: ", "Expected type ", ", received ",
  "Unexpected format of the answer of Google API", "Incorrect site URL: ",
  "The API answer has no user_id: ".\<close>

definition msg_api_error :: pystr where
  "msg_api_error = [0x41E, 0x448, 0x438, 0x431, 0x43A, 0x430] @ asc '' API: ''"

definition msg_expected_type :: pystr where
  "msg_expected_type =
     [0x41E, 0x436, 0x438, 0x434, 0x430, 0x43B, 0x441, 0x44F, 0x20, 0x442, 0x438, 0x43F, 0x20]"

definition msg_received :: pystr where
  "msg_received = [0x2C, 0x20, 0x43F, 0x43E, 0x43B, 0x443, 0x447, 0x435, 0x43D, 0x20]"

definition msg_unexpected_format :: pystr where
  "msg_unexpected_format =
     [0x41D, 0x435, 0x43E, 0x436, 0x438, 0x434, 0x430, 0x43D, 0x43D, 0x44B, 0x439, 0x20,
      0x444, 0x43E, 0x440, 0x43C, 0x430, 0x442, 0x20, 0x43E, 0x442, 0x432, 0x435, 0x442, 0x430,
      0x20, 0x43E, 0x442] @ asc '' Google API''"

definition msg_bad_site_url :: pystr where
  "msg_bad_site_url =
     [0x41D, 0x435, 0x43A, 0x43E, 0x440, 0x440, 0x435, 0x43A, 0x442, 0x43D, 0x44B, 0x439]
     @ asc '' URL '' @ [0x441, 0x430, 0x439, 0x442, 0x430] @ asc '': ''"

definition msg_no_user_id :: pystr where
  "msg_no_user_id =
     [0x412, 0x20, 0x43E, 0x442, 0x432, 0x435, 0x442, 0x435] @ asc '' API ''
     @ [0x43E, 0x442, 0x441, 0x443, 0x442, 0x441, 0x442, 0x432, 0x443, 0x435, 0x442]
     @ asc '' user_id: ''"

section \<open>Identity resolution\<close>

text \<open>\<open>get_access_token\<close>: refreshes the credentials; the handler logs and raises again.\<close>

definition get_access_token :: "env \<Rightarrow> event list \<Rightarrow> (exn + pystr) \<times> event list" where
  "get_access_token E tr = (refresh_token E tr, tr @ [TokenRefresh])"

text \<open>\<open>build_yandex_host_id\<close>: the handler logs and raises again, so every exception
  of the body leaves the function.\<close>

definition build_yandex_host_id :: "env \<Rightarrow> pystr \<Rightarrow> exn + pystr" where
  "build_yandex_host_id E site_url =
     (case urlparse E site_url of
        Inl e \<Rightarrow> Inl e
      | Inr (scheme, netloc) \<Rightarrow>
          if scheme = [] \<or> netloc = [] then Inl (ValueError (msg_bad_site_url @ site_url))
          else
            let port = (if scheme = asc ''https'' then asc ''443'' else asc ''80'')
            in Inr (scheme @ asc '':'' @ netloc @ asc '':'' @ port))"

definition user_request :: "env \<Rightarrow> request" where
  "user_request E =
     \<lparr>target = YANDEX_API_BASE @ asc ''/user'', headers = YANDEX_HEADERS E, payload = []\<rparr>"

text \<open>\<open>get_yandex_user_id\<close>: nothing is caught for good (the handler raises again).\<close>

definition get_yandex_user_id :: "env \<Rightarrow> event list \<Rightarrow> (exn + json) \<times> event list" where
  "get_yandex_user_id E tr =
     (let tr' = tr @ [HttpGet (user_request E)] in
      (case http_get E tr (user_request E) of
         Inl e \<Rightarrow> Inl e
       | Inr response \<Rightarrow>
           (case raise_for_status response of
              Inl e \<Rightarrow> Inl e
            | Inr _ \<Rightarrow>
                (case body response of
                   Inl e \<Rightarrow> Inl e
                 | Inr data \<Rightarrow>
                     (case py_in (asc ''user_id'') data of
                        Inl e \<Rightarrow> Inl e
                      | Inr present \<Rightarrow>
                          if \<not> present
                          then Inl (ValueError (msg_no_user_id @ py_str E data))
                          else py_getitem data (asc ''user_id'')))),
       tr'))"

section \<open>The two submitters\<close>

type_synonym outcome = "pystr \<times> pystr option"

definition yandex_request :: "env \<Rightarrow> json \<Rightarrow> pystr \<Rightarrow> pystr \<Rightarrow> request" where
  "yandex_request E user_id host_id url =
     \<lparr>target = YANDEX_API_BASE @ asc ''/user/'' @ py_str E user_id @ asc ''/hosts/'' @ host_id
                @ asc ''/recrawl/queue'',
      headers = YANDEX_HEADERS E,
      payload = [(asc ''url'', url)]\<rparr>"

text \<open>The part of the \<open>try\<close> block of \<open>send_reindex_yandex\<close> that follows
  \<open>requests.post\<close>.\<close>

definition yandex_classify :: "env \<Rightarrow> response \<Rightarrow> exn + outcome" where
  "yandex_classify E response =
     (case raise_for_status response of
        Inl e \<Rightarrow> Inl e
      | Inr _ \<Rightarrow>
          (case body response of
             Inl e \<Rightarrow> Inl e
           | Inr response_data \<Rightarrow>
               (case py_in (asc ''error'') response_data of
                  Inl e \<Rightarrow> Inl e
                | Inr has_error \<Rightarrow>
                    if has_error then
                      (case py_getitem response_data (asc ''error'') of
                         Inl e \<Rightarrow> Inl e
                       | Inr err \<Rightarrow> Inr (st_failure, Some (msg_api_error @ py_str E err)))
                    else
                      (case py_in (asc ''task_id'') response_data of
                         Inl e \<Rightarrow> Inl e
                       | Inr has_task \<Rightarrow>
                           if has_task then Inr (st_success, None)
                           else Inr (st_success_no_task_id, None)))))"

text \<open>
  The two \<open>except\<close> clauses, the same in both submitters. \<open>response\<close> is \<open>None\<close> when
  \<open>requests.post\<close> itself raised: the name is then unbound, \<open>response.json()\<close> raises,
  and the inner handler returns the text of the \<open>HTTPError\<close>.
\<close>

definition submit_handlers :: "env \<Rightarrow> response option \<Rightarrow> exn \<Rightarrow> exn + outcome" where
  "submit_handlers E response e =
     (case e of
        HTTPError t \<Rightarrow>
          (case response of
             None \<Rightarrow> Inr (st_failure, Some (str_exn E e))
           | Some r \<Rightarrow>
               (case body r of
                  Inr error_details \<Rightarrow> Inr (st_failure, Some (json_dumps E error_details))
                | Inl _ \<Rightarrow> Inr (st_failure, Some (str_exn E e))))
      | _ \<Rightarrow> Inr (st_failure, Some (str_exn E e)))"

definition send_reindex_yandex ::
  "env \<Rightarrow> json \<Rightarrow> pystr \<Rightarrow> pystr \<Rightarrow> event list \<Rightarrow> (exn + outcome) \<times> event list" where
  "send_reindex_yandex E user_id host_id url tr =
     (let req = yandex_request E user_id host_id url in
      (case http_post E tr req of
         Inl e \<Rightarrow> submit_handlers E None e
       | Inr response \<Rightarrow>
           (case yandex_classify E response of
              Inl e \<Rightarrow> submit_handlers E (Some response) e
            | Inr out \<Rightarrow> Inr out),
       tr @ [HttpPost req]))"

definition google_request :: "pystr \<Rightarrow> pystr \<Rightarrow> pystr \<Rightarrow> request" where
  "google_request token url action =
     \<lparr>target = GOOGLE_API_BASE,
      headers = [(asc ''Authorization'', asc ''Bearer '' @ token),
                 (asc ''Content-Type'', asc ''application/json'')],
      payload = [(asc ''url'', url), (asc ''type'', action)]\<rparr>"

text \<open>The part of the \<open>try\<close> block of \<open>publish_url_google\<close> that follows
  \<open>requests.post\<close>. The \<open>and\<close> of the inner test does not look at
  \<open>metadata["latestUpdate"]\<close> when the key is not there.\<close>

definition google_classify :: "env \<Rightarrow> response \<Rightarrow> pystr \<Rightarrow> exn + outcome" where
  "google_classify E response action =
     (case raise_for_status response of
        Inl e \<Rightarrow> Inl e
      | Inr _ \<Rightarrow>
          (case body response of
             Inl e \<Rightarrow> Inl e
           | Inr response_data \<Rightarrow>
               (case py_in (asc ''urlNotificationMetadata'') response_data of
                  Inl e \<Rightarrow> Inl e
                | Inr False \<Rightarrow> Inr (st_failure, Some msg_unexpected_format)
                | Inr True \<Rightarrow>
                    (case py_getitem response_data (asc ''urlNotificationMetadata'') of
                       Inl e \<Rightarrow> Inl e
                     | Inr metadata \<Rightarrow>
                         (case py_in (asc ''latestUpdate'') metadata of
                            Inl e \<Rightarrow> Inl e
                          | Inr False \<Rightarrow> Inr (st_success, None)
                          | Inr True \<Rightarrow>
                              (case py_getitem metadata (asc ''latestUpdate'') of
                                 Inl e \<Rightarrow> Inl e
                               | Inr latest \<Rightarrow>
                                   (case py_in (asc ''type'') latest of
                                      Inl e \<Rightarrow> Inl e
                                    | Inr False \<Rightarrow> Inr (st_success, None)
                                    | Inr True \<Rightarrow>
                                        (case py_getitem latest (asc ''type'') of
                                           Inl e \<Rightarrow> Inl e
                                         | Inr ty \<Rightarrow>
                                             if ty = JStr action then Inr (st_success, None)
                                             else Inr (st_failure,
                                                    Some (msg_expected_type @ action
                                                          @ msg_received @ py_str E ty))))))))))"

text \<open>\<open>publish_url_google\<close>: the token is fetched while the \<open>headers\<close> dict is built,
  before the \<open>try\<close> statement, so an exception of \<open>get_access_token\<close> leaves the function.\<close>

definition publish_url_google ::
  "env \<Rightarrow> pystr \<Rightarrow> pystr \<Rightarrow> event list \<Rightarrow> (exn + outcome) \<times> event list" where
  "publish_url_google E url action tr =
     (case get_access_token E tr of
        (Inl e, tr1) \<Rightarrow> (Inl e, tr1)
      | (Inr token, tr1) \<Rightarrow>
          (let req = google_request token url action in
           (case http_post E tr1 req of
              Inl e \<Rightarrow> submit_handlers E None e
            | Inr response \<Rightarrow>
                (case google_classify E response action of
                   Inl e \<Rightarrow> submit_handlers E (Some response) e
                 | Inr out \<Rightarrow> Inr out),
            tr1 @ [HttpPost req])))"

section \<open>The batch run\<close>

text \<open>A CSV file is the list of rows \<open>csv.reader\<close> gives for it, each a list of fields;
  a blank line is the row \<open>[]\<close>. Opening, decoding and splitting the text are the
  library's: a file that exists is taken to open and to decode.\<close>

type_synonym table = "pystr list list"

record world =
  files :: "pystr \<rightharpoonup> table"
  trace :: "event list"

record result_row =
  row_url :: pystr
  yandex_status :: pystr
  yandex_error :: pystr
  google_status :: pystr
  google_error :: pystr

record loop_state =
  results :: "result_row list"
  total_urls :: nat
  processed_urls :: nat
  calls :: "event list"

text \<open>\<open>f.strip().replace("\ufeff", "")\<close>: the name is stripped first, then every
  U+FEFF left in it is removed.\<close>

definition normalize_fieldname :: "pystr \<Rightarrow> pystr" where
  "normalize_fieldname f = filter (\<lambda>c. c \<noteq> 0xFEFF) (strip f)"

text \<open>
  The dict \<open>csv.DictReader\<close> builds for a row: \<open>dict(zip(fieldnames, row))\<close>, then
  \<open>None\<close> (the \<open>restval\<close>) under every field name the row is too short for. A later
  binding of a name replaces an earlier one. The value \<open>None\<close> of the model is Python's
  \<open>None\<close>. The fields beyond the header go under the key \<open>None\<close>, which no lookup
  by a \<open>str\<close> finds.
\<close>

definition dict_row :: "pystr list \<Rightarrow> pystr list \<Rightarrow> (pystr \<times> pystr option) list" where
  "dict_row fieldnames row =
     rev (zip fieldnames (map Some row @ replicate (length fieldnames - length row) None))"

text \<open>\<open>row.get("URL", "")\<close>: the default only stands in for a key that is not there.\<close>

definition row_get_URL :: "(pystr \<times> pystr option) list \<Rightarrow> pystr option" where
  "row_get_URL d = (case map_of d (asc ''URL'') of None \<Rightarrow> Some [] | Some v \<Rightarrow> v)"

definition error_or_empty :: "pystr option \<Rightarrow> pystr" where
  "error_or_empty err = (case err of None \<Rightarrow> [] | Some t \<Rightarrow> if t \<noteq> [] then t else [])"

text \<open>One pass through the body of the \<open>for\<close> loop. The state reached is returned also
  when the body raises.\<close>

definition process_row ::
  "env \<Rightarrow> json \<Rightarrow> pystr \<Rightarrow> pystr list \<Rightarrow> pystr list \<Rightarrow> loop_state
     \<Rightarrow> exn option \<times> loop_state" where
  "process_row E user_id host_id fieldnames row st =
     (let st1 = st\<lparr>total_urls := total_urls st + 1\<rparr> in
      case row_get_URL (dict_row fieldnames row) of
        None \<Rightarrow> (Some AttributeError, st1)
      | Some raw \<Rightarrow>
          (let url = strip raw in
           if url = [] then (None, st1\<lparr>calls := calls st1 @ [SkipWarning (total_urls st1)]\<rparr>)
           else
             (case send_reindex_yandex E user_id host_id url (calls st1) of
                (Inl e, tr1) \<Rightarrow> (Some e, st1\<lparr>calls := tr1\<rparr>)
              | (Inr (status_yandex, error_yandex), tr1) \<Rightarrow>
                  (case publish_url_google E url (asc ''URL_UPDATED'') tr1 of
                     (Inl e, tr2) \<Rightarrow> (Some e, st1\<lparr>calls := tr2\<rparr>)
                   | (Inr (status_google, error_google), tr2) \<Rightarrow>
                       (None,
                        st1\<lparr>results := results st1 @
                               [\<lparr>row_url = url,
                                 yandex_status = status_yandex,
                                 yandex_error = error_or_empty error_yandex,
                                 google_status = status_google,
                                 google_error = error_or_empty error_google\<rparr>],
                            processed_urls := processed_urls st1 + 1,
                            calls := tr2 @ [Sleep]\<rparr>)))))"

text \<open>The \<open>for\<close> loop over the reader; \<open>DictReader\<close> passes over the rows \<open>[]\<close>.\<close>

fun for_each_url ::
  "env \<Rightarrow> json \<Rightarrow> pystr \<Rightarrow> pystr list \<Rightarrow> table \<Rightarrow> loop_state \<Rightarrow> exn option \<times> loop_state" where
  "for_each_url E user_id host_id fieldnames [] st = (None, st)"
| "for_each_url E user_id host_id fieldnames (row # rows) st =
     (if row = [] then for_each_url E user_id host_id fieldnames rows st
      else
        (case process_row E user_id host_id fieldnames row st of
           (Some e, st') \<Rightarrow> (Some e, st')
         | (None, st') \<Rightarrow> for_each_url E user_id host_id fieldnames rows st'))"

definition output_fieldnames :: "pystr list" where
  "output_fieldnames =
     [asc ''URL'', asc ''Yandex_Status'', asc ''Yandex_Error'', asc ''Google_Status'',
      asc ''Google_Error'']"

definition output_table :: "result_row list \<Rightarrow> table" where
  "output_table rs =
     output_fieldnames #
     map (\<lambda>r. [row_url r, yandex_status r, yandex_error r, google_status r, google_error r]) rs"

text \<open>
  \<open>reader.fieldnames\<close> after the two statements that follow the creation of the reader:
  the first row of the file, normalised when it is not empty; \<open>None\<close> for a file with no
  row at all.
\<close>

definition reader_fieldnames :: "table \<Rightarrow> pystr list option" where
  "reader_fieldnames t =
     (case t of
        [] \<Rightarrow> None
      | hdr # _ \<Rightarrow> Some (if hdr \<noteq> [] then map normalize_fieldname hdr else hdr))"

text \<open>
  \<open>process_urls\<close> returns nothing; what it does is the change of the world. Every
  \<open>return\<close> and every exception caught by one of its two handlers ends the run with the
  files as they were. \<open>"URL" not in None\<close> raises a \<open>TypeError\<close>, caught by the second
  handler.
\<close>

definition process_urls :: "env \<Rightarrow> pystr \<Rightarrow> pystr \<Rightarrow> world \<Rightarrow> world" where
  "process_urls E input_file output_file w =
     (case build_yandex_host_id E (SITE_URL E) of
        Inl e \<Rightarrow> w
      | Inr host_id \<Rightarrow>
          (case get_yandex_user_id E (trace w) of
             (Inl e, tr1) \<Rightarrow> w\<lparr>trace := tr1\<rparr>
           | (Inr user_id, tr1) \<Rightarrow>
               (let tr2 = tr1 @ [FileExists input_file] in
                case files w input_file of
                  None \<Rightarrow> w\<lparr>trace := tr2\<rparr>
                | Some t \<Rightarrow>
                    (let tr3 = tr2 @ [FileRead input_file] in
                     case reader_fieldnames t of
                       None \<Rightarrow> w\<lparr>trace := tr3\<rparr>
                     | Some fieldnames \<Rightarrow>
                         if asc ''URL'' \<notin> set fieldnames then w\<lparr>trace := tr3\<rparr>
                         else
                           (case for_each_url E user_id host_id fieldnames (tl t)
                                   \<lparr>results = [], total_urls = 0, processed_urls = 0,
                                    calls = tr3\<rparr> of
                              (Some e, st) \<Rightarrow> w\<lparr>trace := calls st\<rparr>
                            | (None, st) \<Rightarrow>
                                (case open_for_write E (calls st) output_file of
                                   Some e \<Rightarrow> w\<lparr>trace := calls st\<rparr>
                                 | None \<Rightarrow>
                                     w\<lparr>files := (files w)(output_file \<mapsto>
                                                   output_table (results st)),
                                       trace := calls st @ [FileWrite output_file]\<rparr>))))))"

text \<open>The URL of a row as the loop sees it after \<open>strip\<close>; empty when the row has
  no value for the column.\<close>

definition trimmed_url :: "pystr list \<Rightarrow> pystr list \<Rightarrow> pystr" where
  "trimmed_url fieldnames row =
     (case row_get_URL (dict_row fieldnames row) of None \<Rightarrow> [] | Some raw \<Rightarrow> strip raw)"

text \<open>The number of rows passed over for their empty URL: the warnings logged.\<close>

definition skipped_rows :: "event list \<Rightarrow> nat" where
  "skipped_rows tr = length (filter (\<lambda>ev. case ev of SkipWarning n \<Rightarrow> True | _ \<Rightarrow> False) tr)"

section \<open>Texts supplied by the libraries\<close>

text \<open>
  The texts that reach an error detail unchanged come from outside main.py: the text of
  the exception of a POST, the message of the \<open>HTTPError\<close> of an answer, the text of
  the error of decoding its body, and \<open>json.dumps\<close> of its body. This says that, for one
  answer to a POST, none of them is empty.
\<close>

definition answer_texts_nonempty :: "env \<Rightarrow> exn + response \<Rightarrow> bool" where
  "answer_texts_nonempty E ans =
     (case ans of
        Inl e \<Rightarrow> str_exn E e \<noteq> []
      | Inr r \<Rightarrow>
          http_error_msg r \<noteq> [] \<and>
          (case body r of Inl e \<Rightarrow> str_exn E e \<noteq> [] | Inr j \<Rightarrow> json_dumps E j \<noteq> []))"

section \<open>Concrete surroundings for the examples\<close>

text \<open>
  A stand-in for \<open>urlparse\<close> on URLs of the shape \<open>scheme://authority/...\<close>: the scheme
  is what precedes the first colon, the authority what follows \<open>://\<close> up to the next
  \<open>/\<close>, \<open>?\<close> or \<open>#\<close>; without \<open>://\<close> both are empty.
\<close>

definition demo_urlparse :: "pystr \<Rightarrow> exn + (pystr \<times> pystr)" where
  "demo_urlparse s =
     (let scheme = takeWhile (\<lambda>c. c \<noteq> 58) s; rest = drop (length scheme) s in
      if take 3 rest = asc ''://''
      then Inr (scheme, takeWhile (\<lambda>c. c \<noteq> 47 \<and> c \<noteq> 63 \<and> c \<noteq> 35) (drop 3 rest))
      else Inr ([], []))"

definition demo_response :: "nat \<Rightarrow> json \<Rightarrow> response" where
  "demo_response code j = \<lparr>status_code = code, http_error_msg = asc ''HTTP error'', body = Inr j\<rparr>"

text \<open>Answers of the two services: by the target of the request, the Secondary API
  answers \<open>g\<close> and the Primary API answers \<open>y\<close>.\<close>

definition demo_post :: "(exn + response) \<Rightarrow> (exn + response) \<Rightarrow> request \<Rightarrow> exn + response" where
  "demo_post y g r = (if target r = GOOGLE_API_BASE then g else y)"

text \<open>
  Surroundings in which the identity request answers with the account 7, every POST to the
  Primary API is answered by \<open>y\<close>, every POST to the Secondary API by \<open>g\<close> and every
  token refresh by \<open>tok\<close>; the output file can be written; the library texts are fixed
  words.
\<close>

definition demo_env :: "(exn + response) \<Rightarrow> (exn + response) \<Rightarrow> (exn + pystr) \<Rightarrow> env" where
  "demo_env y g tok =
     \<lparr>YANDEX_API_TOKEN = asc ''secret'',
      SITE_URL = asc ''https://example.com'',
      urlparse = demo_urlparse,
      py_repr = (\<lambda>v. asc ''repr''),
      json_dumps = (\<lambda>v. asc ''dumps''),
      builtin_text = (\<lambda>e. asc ''error''),
      http_get = (\<lambda>tr r. Inr (demo_response 200 (JDict [(asc ''user_id'', JInt 7)]))),
      http_post = (\<lambda>tr. demo_post y g),
      refresh_token = (\<lambda>tr. tok),
      open_for_write = (\<lambda>tr f. None)\<rparr>"

definition demo_world :: "table \<Rightarrow> world" where
  "demo_world t = \<lparr>files = [asc ''urls.csv'' \<mapsto> t], trace = []\<rparr>"

section \<open>Properties\<close>

subsection \<open>Auxiliary facts\<close>

lemma status_tags_distinct:
  "st_failure \<noteq> st_success" "st_failure \<noteq> st_success_no_task_id"
  "st_success \<noteq> st_success_no_task_id"
  by (simp_all add: st_failure_def st_success_def st_success_no_task_id_def)

lemma py_in_JDict: "py_in k (JDict kvs) = Inr (map_of kvs k \<noteq> None)"
  by (simp add: map_of_eq_None_iff)

lemma submit_handlers_failure:
  "\<exists>t. submit_handlers E r e = Inr (st_failure, Some t)"
  by (simp add: submit_handlers_def split: exn.splits option.splits sum.splits)

lemma raise_for_status_ok:
  "\<not> (400 \<le> status_code r \<and> status_code r < 600) \<Longrightarrow> raise_for_status r = Inr ()"
  by (simp add: raise_for_status_def)

lemma raise_for_status_error:
  "400 \<le> status_code r \<Longrightarrow> status_code r < 600 \<Longrightarrow>
   raise_for_status r = Inl (HTTPError (http_error_msg r))"
  by (simp add: raise_for_status_def)

lemma submit_handlers_unbound:
  "submit_handlers E None e = Inr (st_failure, Some (str_exn E e))"
  by (cases e) (simp_all add: submit_handlers_def)

lemma submit_handlers_no_json:
  "body r = Inl e' \<Longrightarrow> submit_handlers E (Some r) e = Inr (st_failure, Some (str_exn E e))"
  by (cases e) (simp_all add: submit_handlers_def)

lemma submit_handlers_http_json:
  "body r = Inr j \<Longrightarrow>
   submit_handlers E (Some r) (HTTPError t) = Inr (st_failure, Some (json_dumps E j))"
  by (simp add: submit_handlers_def)

lemma demo_post_yandex:
  "http_post (demo_env y g t) tr (yandex_request E u h url) = y"
  by (simp add: demo_env_def demo_post_def yandex_request_def YANDEX_API_BASE_def
      GOOGLE_API_BASE_def asc_def)

lemma demo_post_google:
  "http_post (demo_env y g t) tr (google_request token url action) = g"
  by (simp add: demo_env_def demo_post_def google_request_def)

lemma publish_url_google_token_ok:
  "refresh_token E tr = Inr token \<Longrightarrow>
   fst (publish_url_google E url action tr) =
     (case http_post E (tr @ [TokenRefresh]) (google_request token url action) of
        Inl e \<Rightarrow> submit_handlers E None e
      | Inr response \<Rightarrow>
          (case google_classify E response action of
             Inl e \<Rightarrow> submit_handlers E (Some response) e
           | Inr out \<Rightarrow> Inr out))"
  by (simp add: publish_url_google_def get_access_token_def Let_def)

lemma google_classify_error_status:
  "400 \<le> status_code r \<Longrightarrow> status_code r < 600 \<Longrightarrow>
   google_classify E r action = Inl (HTTPError (http_error_msg r))"
  by (simp add: google_classify_def raise_for_status_error)

lemma google_classify_body:
  "\<not> (400 \<le> status_code r \<and> status_code r < 600) \<Longrightarrow>
   google_classify E r action =
     (case body r of
        Inl e \<Rightarrow> Inl e
      | Inr response_data \<Rightarrow>
          (case py_in (asc ''urlNotificationMetadata'') response_data of
             Inl e \<Rightarrow> Inl e
           | Inr False \<Rightarrow> Inr (st_failure, Some msg_unexpected_format)
           | Inr True \<Rightarrow>
               (case py_getitem response_data (asc ''urlNotificationMetadata'') of
                  Inl e \<Rightarrow> Inl e
                | Inr metadata \<Rightarrow>
                    (case py_in (asc ''latestUpdate'') metadata of
                       Inl e \<Rightarrow> Inl e
                     | Inr False \<Rightarrow> Inr (st_success, None)
                     | Inr True \<Rightarrow>
                         (case py_getitem metadata (asc ''latestUpdate'') of
                            Inl e \<Rightarrow> Inl e
                          | Inr latest \<Rightarrow>
                              (case py_in (asc ''type'') latest of
                                 Inl e \<Rightarrow> Inl e
                               | Inr False \<Rightarrow> Inr (st_success, None)
                               | Inr True \<Rightarrow>
                                   (case py_getitem latest (asc ''type'') of
                                      Inl e \<Rightarrow> Inl e
                                    | Inr ty \<Rightarrow>
                                        if ty = JStr action then Inr (st_success, None)
                                        else Inr (st_failure,
                                               Some (msg_expected_type @ action
                                                     @ msg_received @ py_str E ty)))))))))"
  by (simp add: google_classify_def raise_for_status_ok)

lemma py_in_no_container:
  "j = JNull \<or> j = JBool b \<or> j = JInt i \<or> j = JFloat f \<Longrightarrow> py_in k j = Inl (TypeErrorIn j)"
  by auto

lemma submit_handlers_type_error:
  "submit_handlers E r (TypeErrorIn j) = Inr (st_failure, Some (builtin_text E (TypeErrorIn j)))"
  by (simp add: submit_handlers_def str_exn_def)

lemma demo_refresh: "refresh_token (demo_env y g t) tr = t"
  by (simp add: demo_env_def)

lemma yandex_classify_returns:
  "yandex_classify E r = Inr (status, detail) \<Longrightarrow>
   (status = st_failure \<and> (\<exists>t. detail = Some t \<and> t \<noteq> []))
   \<or> ((status = st_success \<or> status = st_success_no_task_id) \<and> detail = None)"
  by (auto simp: yandex_classify_def msg_api_error_def split: sum.splits if_splits)

lemma google_classify_returns:
  "google_classify E r action = Inr (status, detail) \<Longrightarrow>
   (status = st_failure \<and> (\<exists>t. detail = Some t \<and> t \<noteq> []))
   \<or> (status = st_success \<and> detail = None)"
  by (auto simp: google_classify_def msg_unexpected_format_def msg_expected_type_def
      split: sum.splits if_splits bool.splits)

lemma yandex_classify_raises:
  "yandex_classify E r = Inl e \<Longrightarrow>
   e = HTTPError (http_error_msg r) \<or> body r = Inl e \<or> str_exn E e = builtin_text E e"
  by (auto simp: yandex_classify_def raise_for_status_def str_exn_def
      split: sum.splits if_splits json.splits option.splits elim!: py_in.elims py_getitem.elims)

lemma google_classify_raises:
  "google_classify E r action = Inl e \<Longrightarrow>
   e = HTTPError (http_error_msg r) \<or> body r = Inl e \<or> str_exn E e = builtin_text E e"
  by (auto simp: google_classify_def raise_for_status_def str_exn_def
      split: sum.splits if_splits json.splits option.splits bool.splits
      elim!: py_in.elims py_getitem.elims)

lemma submit_handlers_detail:
  assumes "str_exn E e \<noteq> []" and "\<And>j. body r = Inr j \<Longrightarrow> json_dumps E j \<noteq> []"
  shows "\<exists>t. submit_handlers E (Some r) e = Inr (st_failure, Some t) \<and> t \<noteq> []"
  using assms by (cases e; cases "body r") (simp_all add: submit_handlers_def)

lemma caught_detail:
  assumes raised: "e = HTTPError (http_error_msg r) \<or> body r = Inl e
                   \<or> str_exn E e = builtin_text E e"
      and builtin: "\<forall>e. builtin_text E e \<noteq> []"
      and texts: "answer_texts_nonempty E (Inr r)"
  shows "\<exists>t. submit_handlers E (Some r) e = Inr (st_failure, Some t) \<and> t \<noteq> []"
proof (rule submit_handlers_detail)
  from texts have msg: "http_error_msg r \<noteq> []"
    by (simp add: answer_texts_nonempty_def)
  from raised show "str_exn E e \<noteq> []"
  proof (elim disjE)
    assume "e = HTTPError (http_error_msg r)"
    with msg show ?thesis by (simp add: str_exn_def)
  next
    assume "body r = Inl e"
    with texts show ?thesis by (simp add: answer_texts_nonempty_def)
  next
    assume "str_exn E e = builtin_text E e"
    with builtin show ?thesis by simp
  qed
next
  fix j assume "body r = Inr j"
  with texts show "json_dumps E j \<noteq> []" by (simp add: answer_texts_nonempty_def)
qed

lemma outcome_shape:
  assumes res: "(case ans of
                   Inl e \<Rightarrow> submit_handlers E None e
                 | Inr response \<Rightarrow>
                     (case classify response of
                        Inl e \<Rightarrow> submit_handlers E (Some response) e
                      | Inr out \<Rightarrow> Inr out)) = Inr (status, detail)"
      and returns: "\<And>r s d. classify r = Inr (s, d) \<Longrightarrow>
                      (s = st_failure \<and> (\<exists>t. d = Some t \<and> t \<noteq> []))
                      \<or> ((s = st_success \<or> s = st_success_no_task_id) \<and> d = None)"
      and raises: "\<And>r e. classify r = Inl e \<Longrightarrow>
                      e = HTTPError (http_error_msg r) \<or> body r = Inl e
                      \<or> str_exn E e = builtin_text E e"
  shows "(status = st_failure
          \<and> (\<exists>t. detail = Some t
                \<and> ((\<forall>e. builtin_text E e \<noteq> []) \<and> answer_texts_nonempty E ans \<longrightarrow> t \<noteq> [])))
         \<or> ((status = st_success \<or> status = st_success_no_task_id) \<and> detail = None)"
proof (cases ans)
  case (Inl e)
  with res show ?thesis
    by (auto simp: submit_handlers_unbound answer_texts_nonempty_def)
next
  case ans: (Inr response)
  show ?thesis
  proof (cases "classify response")
    case (Inl e)
    from submit_handlers_failure [of E "Some response" e] res ans Inl
    have shape: "status = st_failure" "\<exists>t. detail = Some t" by auto
    have "t \<noteq> []"
      if "detail = Some t" "\<forall>e. builtin_text E e \<noteq> []" "answer_texts_nonempty E ans" for t
      using caught_detail [OF raises [OF Inl] that(2)] that(1,3) res ans Inl by auto
    with shape show ?thesis by auto
  next
    case (Inr out)
    with res ans have "classify response = Inr (status, detail)" by simp
    from returns [OF this] show ?thesis by auto
  qed
qed

lemma get_yandex_user_id_trace:
  "snd (get_yandex_user_id E tr) = tr @ [HttpGet (user_request E)]"
  by (simp add: get_yandex_user_id_def Let_def)

lemma demo_host_id:
  "build_yandex_host_id (demo_env y g t) (SITE_URL (demo_env y g t))
     = Inr (asc ''https:example.com:443'')"
  by (simp add: build_yandex_host_id_def demo_env_def demo_urlparse_def asc_def)

lemma demo_user_id:
  "get_yandex_user_id (demo_env y g t) tr
     = (Inr (JInt 7), tr @ [HttpGet (user_request (demo_env y g t))])"
  by (simp add: get_yandex_user_id_def raise_for_status_def demo_response_def Let_def
      demo_env_def)

lemma send_reindex_yandex_returns:
  "\<exists>status detail. fst (send_reindex_yandex E user_id host_id url tr) = Inr (status, detail)"
proof (cases "http_post E tr (yandex_request E user_id host_id url)")
  case (Inl e)
  then show ?thesis
    using submit_handlers_failure [of E None e] by (auto simp: send_reindex_yandex_def)
next
  case (Inr response)
  show ?thesis
  proof (cases "yandex_classify E response")
    case (Inl e)
    with Inr show ?thesis
      using submit_handlers_failure [of E "Some response" e]
      by (auto simp: send_reindex_yandex_def)
  next
    case (Inr out)
    with \<open>http_post E tr (yandex_request E user_id host_id url) = Inr response\<close>
    show ?thesis by (cases out) (simp add: send_reindex_yandex_def)
  qed
qed

lemma send_reindex_yandex_trace:
  "snd (send_reindex_yandex E user_id host_id url tr)
     = tr @ [HttpPost (yandex_request E user_id host_id url)]"
  by (simp add: send_reindex_yandex_def Let_def)

lemma publish_url_google_trace:
  "snd (publish_url_google E url action tr)
     = tr @ TokenRefresh #
         (case refresh_token E tr of
            Inl e \<Rightarrow> []
          | Inr token \<Rightarrow> [HttpPost (google_request token url action)])"
  by (simp add: publish_url_google_def get_access_token_def Let_def split: sum.splits)

lemma demo_yandex_task:
  "send_reindex_yandex (demo_env (Inr (demo_response 200 (JDict [(asc ''task_id'', JInt 1)]))) g t)
       u h url tr
     = (Inr (st_success, None),
        tr @ [HttpPost (yandex_request
                 (demo_env (Inr (demo_response 200 (JDict [(asc ''task_id'', JInt 1)]))) g t)
                 u h url)])"
  by (simp add: send_reindex_yandex_def demo_post_yandex yandex_classify_def
      raise_for_status_def demo_response_def Let_def asc_def)

lemma demo_yandex_500:
  "send_reindex_yandex (demo_env (Inr (demo_response 500 (JDict []))) g t) u h url tr
     = (Inr (st_failure, Some (asc ''dumps'')),
        tr @ [HttpPost (yandex_request (demo_env (Inr (demo_response 500 (JDict []))) g t)
                 u h url)])"
  by (simp add: send_reindex_yandex_def demo_post_yandex yandex_classify_def
      raise_for_status_def submit_handlers_def demo_response_def Let_def)
    (simp add: demo_env_def)

lemma demo_google_empty_envelope:
  "publish_url_google
       (demo_env y (Inr (demo_response 200 (JDict [(asc ''urlNotificationMetadata'', JDict [])])))
          (Inr token))
       url action tr
     = (Inr (st_success, None),
        tr @ [TokenRefresh, HttpPost (google_request token url action)])"
  by (simp add: publish_url_google_def get_access_token_def demo_refresh demo_post_google
      google_classify_def raise_for_status_def demo_response_def Let_def)

lemma demo_google_token_fails:
  "publish_url_google (demo_env y g (Inl e)) url action tr = (Inl e, tr @ [TokenRefresh])"
  by (simp add: publish_url_google_def get_access_token_def demo_refresh)

lemma strip_demo_url: "strip (asc '' https://a.com/ '') = asc ''https://a.com/''"
  by (simp add: strip_def is_space_def asc_def)

lemma publish_url_google_returns:
  assumes "refresh_token E tr = Inr token"
  shows "\<exists>status detail. fst (publish_url_google E url action tr) = Inr (status, detail)"
proof (cases "http_post E (tr @ [TokenRefresh]) (google_request token url action)")
  case (Inl e)
  then show ?thesis
    using submit_handlers_failure [of E None e]
    by (auto simp: publish_url_google_token_ok [OF assms])
next
  case (Inr response)
  show ?thesis
  proof (cases "google_classify E response action")
    case (Inl e)
    with Inr show ?thesis
      using submit_handlers_failure [of E "Some response" e]
      by (auto simp: publish_url_google_token_ok [OF assms])
  next
    case (Inr out)
    with \<open>http_post E (tr @ [TokenRefresh]) (google_request token url action) = Inr response\<close>
    show ?thesis by (cases out) (simp add: publish_url_google_token_ok [OF assms])
  qed
qed

lemma skipped_rows_append [simp]:
  "skipped_rows (xs @ ys) = skipped_rows xs + skipped_rows ys"
  by (simp add: skipped_rows_def)

lemma process_row_step:
  assumes url: "row_get_URL (dict_row fieldnames row) \<noteq> None"
      and tok: "\<And>tr. \<exists>token. refresh_token E tr = Inr token"
  shows "\<exists>st'. process_row E user_id host_id fieldnames row st = (None, st')
      \<and> total_urls st' = total_urls st + 1
      \<and> (if trimmed_url fieldnames row = []
          then results st' = results st \<and> processed_urls st' = processed_urls st
               \<and> skipped_rows (calls st') = skipped_rows (calls st) + 1
          else map row_url (results st') = map row_url (results st) @ [trimmed_url fieldnames row]
               \<and> processed_urls st' = processed_urls st + 1
               \<and> skipped_rows (calls st') = skipped_rows (calls st))"
proof -
  from url obtain raw where raw: "row_get_URL (dict_row fieldnames row) = Some raw" by auto
  show ?thesis
  proof (cases "strip raw = []")
    case True
    with raw show ?thesis
      by (simp add: process_row_def trimmed_url_def Let_def skipped_rows_def)
  next
    case False
    let ?url = "strip raw"
    let ?tr1 = "calls st @ [HttpPost (yandex_request E user_id host_id ?url)]"
    obtain s1 e1 where
      y: "send_reindex_yandex E user_id host_id ?url (calls st) = (Inr (s1, e1), ?tr1)"
      using send_reindex_yandex_returns [of E user_id host_id ?url "calls st"]
        send_reindex_yandex_trace [of E user_id host_id ?url "calls st"]
      by (auto simp: prod_eq_iff)
    from tok obtain token where token: "refresh_token E ?tr1 = Inr token" by blast
    obtain s2 e2 where
      g: "publish_url_google E ?url (asc ''URL_UPDATED'') ?tr1
          = (Inr (s2, e2),
             ?tr1 @ [TokenRefresh, HttpPost (google_request token ?url (asc ''URL_UPDATED''))])"
      using publish_url_google_returns [OF token, of ?url "asc ''URL_UPDATED''"]
        publish_url_google_trace [of E ?url "asc ''URL_UPDATED''" ?tr1] token
      by (auto simp: prod_eq_iff)
    from raw False y g show ?thesis
      by (simp add: process_row_def trimmed_url_def Let_def skipped_rows_def)
  qed
qed

lemma for_each_url_one_row_per_url:
  assumes rows: "\<forall>row \<in> set rows. row \<noteq> [] \<longrightarrow> row_get_URL (dict_row fieldnames row) \<noteq> None"
      and tok: "\<And>tr. \<exists>token. refresh_token E tr = Inr token"
  shows "\<exists>st'. for_each_url E user_id host_id fieldnames rows st = (None, st')
      \<and> map row_url (results st')
          = map row_url (results st)
            @ filter (\<lambda>u. u \<noteq> []) (map (trimmed_url fieldnames) (filter (\<lambda>r. r \<noteq> []) rows))
      \<and> total_urls st' = total_urls st + length (filter (\<lambda>r. r \<noteq> []) rows)
      \<and> skipped_rows (calls st') + processed_urls st'
          = skipped_rows (calls st) + processed_urls st + length (filter (\<lambda>r. r \<noteq> []) rows)"
  using rows
proof (induction rows arbitrary: st)
  case Nil
  then show ?case by simp
next
  case (Cons row rows)
  show ?case
  proof (cases "row = []")
    case True
    with Cons.IH [of st] Cons.prems show ?thesis by simp
  next
    case False
    with Cons.prems have "row_get_URL (dict_row fieldnames row) \<noteq> None" by simp
    from process_row_step [OF this tok, of user_id host_id st]
    obtain st1 where step: "process_row E user_id host_id fieldnames row st = (None, st1)"
      and total: "total_urls st1 = total_urls st + 1"
      and rest: "if trimmed_url fieldnames row = []
          then results st1 = results st \<and> processed_urls st1 = processed_urls st
               \<and> skipped_rows (calls st1) = skipped_rows (calls st) + 1
          else map row_url (results st1) = map row_url (results st) @ [trimmed_url fieldnames row]
               \<and> processed_urls st1 = processed_urls st + 1
               \<and> skipped_rows (calls st1) = skipped_rows (calls st)"
      by blast
    from Cons.prems have "\<forall>row \<in> set rows. row \<noteq> [] \<longrightarrow>
        row_get_URL (dict_row fieldnames row) \<noteq> None" by simp
    from Cons.IH [OF this, of st1]
    obtain st' where loop: "for_each_url E user_id host_id fieldnames rows st1 = (None, st')"
      and r: "map row_url (results st')
          = map row_url (results st1)
            @ filter (\<lambda>u. u \<noteq> []) (map (trimmed_url fieldnames) (filter (\<lambda>r. r \<noteq> []) rows))"
      and t: "total_urls st' = total_urls st1 + length (filter (\<lambda>r. r \<noteq> []) rows)"
      and c: "skipped_rows (calls st') + processed_urls st'
          = skipped_rows (calls st1) + processed_urls st1 + length (filter (\<lambda>r. r \<noteq> []) rows)"
      by blast
    from False step loop have "for_each_url E user_id host_id fieldnames (row # rows) st = (None, st')"
      by simp
    moreover from False r rest have "map row_url (results st')
          = map row_url (results st)
            @ filter (\<lambda>u. u \<noteq> [])
                (map (trimmed_url fieldnames) (filter (\<lambda>r. r \<noteq> []) (row # rows)))"
      by (simp split: if_splits)
    moreover from False t total
    have "total_urls st' = total_urls st + length (filter (\<lambda>r. r \<noteq> []) (row # rows))"
      by simp
    moreover from False c rest
    have "skipped_rows (calls st') + processed_urls st'
          = skipped_rows (calls st) + processed_urls st
            + length (filter (\<lambda>r. r \<noteq> []) (row # rows))"
      by (simp split: if_splits)
    ultimately show ?thesis by blast
  qed
qed

lemma publish_url_google_token_raises:
  "refresh_token E tr = Inl e \<Longrightarrow> publish_url_google E url action tr = (Inl e, tr @ [TokenRefresh])"
  by (simp add: publish_url_google_def get_access_token_def)

text \<open>
  For a row whose URL is not empty after \<open>strip\<close>, the loop body sends the POST of the
  Primary submitter first and then enters the Secondary submitter (whose first act is the
  token refresh), whatever the Primary submitter returned. When the Secondary submitter
  returns an outcome too, the row is processed: no exception, one ResultRow appended that
  holds the URL, both statuses and both details (an absent detail as the empty string),
  and one more processed URL.
\<close>

lemma process_row_calls_both_submitters:
  assumes url: "row_get_URL (dict_row fieldnames row) = Some raw"
      and nonempty: "strip raw \<noteq> []"
  shows "(\<exists>rest. calls (snd (process_row E user_id host_id fieldnames row st))
              = calls st @ HttpPost (yandex_request E user_id host_id (strip raw))
                  # TokenRefresh # rest)
    \<and> (fst (send_reindex_yandex E user_id host_id (strip raw) (calls st)) = Inr (sy, ey)
         \<and> fst (publish_url_google E (strip raw) (asc ''URL_UPDATED'')
                  (calls st @ [HttpPost (yandex_request E user_id host_id (strip raw))]))
             = Inr (sg, eg) \<longrightarrow>
         fst (process_row E user_id host_id fieldnames row st) = None
         \<and> results (snd (process_row E user_id host_id fieldnames row st))
             = results st @
                 [\<lparr>row_url = strip raw,
                   yandex_status = sy, yandex_error = error_or_empty ey,
                   google_status = sg, google_error = error_or_empty eg\<rparr>]
         \<and> processed_urls (snd (process_row E user_id host_id fieldnames row st))
             = processed_urls st + 1)"
proof -
  let ?url = "strip raw"
  let ?tr1 = "calls st @ [HttpPost (yandex_request E user_id host_id ?url)]"
  obtain s1 e1 where y: "fst (send_reindex_yandex E user_id host_id ?url (calls st)) = Inr (s1, e1)"
    using send_reindex_yandex_returns by blast
  then have y': "send_reindex_yandex E user_id host_id ?url (calls st) = (Inr (s1, e1), ?tr1)"
    using send_reindex_yandex_trace [of E user_id host_id ?url "calls st"]
    by (simp add: prod_eq_iff)
  obtain r2 where g: "publish_url_google E ?url (asc ''URL_UPDATED'') ?tr1
      = (r2, ?tr1 @ TokenRefresh #
               (case refresh_token E ?tr1 of
                  Inl e \<Rightarrow> []
                | Inr token \<Rightarrow> [HttpPost (google_request token ?url (asc ''URL_UPDATED''))]))"
    using publish_url_google_trace [of E ?url "asc ''URL_UPDATED''" ?tr1]
    by (cases "publish_url_google E ?url (asc ''URL_UPDATED'') ?tr1") simp
  have order: "\<exists>rest. calls (snd (process_row E user_id host_id fieldnames row st))
              = calls st @ HttpPost (yandex_request E user_id host_id ?url) # TokenRefresh # rest"
    using url nonempty y' g
    by (cases r2) (auto simp: process_row_def Let_def)
  have recorded: "fst (process_row E user_id host_id fieldnames row st) = None
         \<and> results (snd (process_row E user_id host_id fieldnames row st))
             = results st @
                 [\<lparr>row_url = ?url,
                   yandex_status = sy, yandex_error = error_or_empty ey,
                   google_status = sg, google_error = error_or_empty eg\<rparr>]
         \<and> processed_urls (snd (process_row E user_id host_id fieldnames row st))
             = processed_urls st + 1"
    if "fst (send_reindex_yandex E user_id host_id ?url (calls st)) = Inr (sy, ey)"
      and "fst (publish_url_google E ?url (asc ''URL_UPDATED'') ?tr1) = Inr (sg, eg)"
    using that url nonempty y y' g by (simp add: process_row_def Let_def)
  from order recorded show ?thesis by blast
qed

text \<open>The row \<open>" https://a.com/ "\<close> when the Primary API answers with status 500 and the
  Secondary API with an empty envelope: Failure with its detail, then Success.\<close>

lemma process_row_calls_both_submitters_example:
  "row_get_URL (dict_row [asc ''URL''] [asc '' https://a.com/ '']) = Some (asc '' https://a.com/ '')
   \<and> strip (asc '' https://a.com/ '') \<noteq> []
   \<and> fst (process_row
            (demo_env (Inr (demo_response 500 (JDict [])))
               (Inr (demo_response 200 (JDict [(asc ''urlNotificationMetadata'', JDict [])])))
               (Inr (asc ''token'')))
            (JInt 7) (asc ''https:example.com:443'') [asc ''URL''] [asc '' https://a.com/ '']
            \<lparr>results = [], total_urls = 0, processed_urls = 0, calls = []\<rparr>) = None
   \<and> results (snd (process_row
            (demo_env (Inr (demo_response 500 (JDict [])))
               (Inr (demo_response 200 (JDict [(asc ''urlNotificationMetadata'', JDict [])])))
               (Inr (asc ''token'')))
            (JInt 7) (asc ''https:example.com:443'') [asc ''URL''] [asc '' https://a.com/ '']
            \<lparr>results = [], total_urls = 0, processed_urls = 0, calls = []\<rparr>))
       = [\<lparr>row_url = asc ''https://a.com/'',
           yandex_status = st_failure, yandex_error = asc ''dumps'',
           google_status = st_success, google_error = []\<rparr>]"
proof -
  let ?E = "demo_env (Inr (demo_response 500 (JDict [])))
               (Inr (demo_response 200 (JDict [(asc ''urlNotificationMetadata'', JDict [])])))
               (Inr (asc ''token''))"
  let ?st = "\<lparr>results = [], total_urls = 0, processed_urls = 0, calls = []\<rparr>"
  have url: "row_get_URL (dict_row [asc ''URL''] [asc '' https://a.com/ ''])
               = Some (asc '' https://a.com/ '')"
    by (simp add: row_get_URL_def dict_row_def)
  have nonempty: "strip (asc '' https://a.com/ '') \<noteq> []"
    unfolding strip_demo_url by (simp add: asc_def)
  have y: "fst (send_reindex_yandex ?E (JInt 7) (asc ''https:example.com:443'')
                  (strip (asc '' https://a.com/ '')) (calls ?st))
            = Inr (st_failure, Some (asc ''dumps''))"
    by (simp add: demo_yandex_500)
  have g: "fst (publish_url_google ?E (strip (asc '' https://a.com/ '')) (asc ''URL_UPDATED'')
                  (calls ?st @ [HttpPost (yandex_request ?E (JInt 7) (asc ''https:example.com:443'')
                                   (strip (asc '' https://a.com/ '')))]))
            = Inr (st_success, None)"
    by (simp add: demo_google_empty_envelope)
  from process_row_calls_both_submitters
         [OF url nonempty, THEN conjunct2, THEN mp, OF conjI [OF y g], unfolded strip_demo_url]
  have "fst (process_row ?E (JInt 7) (asc ''https:example.com:443'') [asc ''URL'']
               [asc '' https://a.com/ ''] ?st) = None"
    and "results (snd (process_row ?E (JInt 7) (asc ''https:example.com:443'') [asc ''URL'']
               [asc '' https://a.com/ ''] ?st))
         = [\<lparr>row_url = asc ''https://a.com/'',
             yandex_status = st_failure, yandex_error = asc ''dumps'',
             google_status = st_success, google_error = []\<rparr>]"
    by (simp_all add: error_or_empty_def asc_def)
  with url nonempty show ?thesis by blast
qed

subsection \<open>The Primary submitter\<close>

text \<open>
  Claim C1, as the code has it. Let \<open>ans\<close> be what \<open>requests.post\<close> gives and \<open>out\<close>
  what \<open>send_reindex_yandex\<close> returns. In this order:
  \<^item> when the POST raises \<open>e\<close>, the outcome is Failure with the text of \<open>e\<close>;
  \<^item> when the status is from 400 to 599, the outcome is Failure with \<open>json.dumps\<close> of the
    body when the body is JSON, else with the text of the \<open>HTTPError\<close>;
  \<^item> otherwise, when the body is not JSON, the outcome is Failure with the text of the
    decoding error;
  \<^item> otherwise, when the body is an object with a key \<open>error\<close>, the outcome is Failure
    and the detail is the prefix "API error: " (in Russian) followed by \<open>str()\<close> of the
    value of the key, whatever other keys there are;
  \<^item> otherwise, when the body is an object with a key \<open>task_id\<close>, the outcome is Success;
  \<^item> otherwise, when the body is an object, the outcome is SuccessNoConfirmation;
  \<^item> when the body is \<open>null\<close>, a boolean or a number, the outcome is Failure with the text
    of the \<open>TypeError\<close> that \<open>"error" in response_data\<close> raises.
\<close>

theorem yandex_outcome_classification:
  assumes out: "out = fst (send_reindex_yandex E user_id host_id url tr)"
      and ans: "ans = http_post E tr (yandex_request E user_id host_id url)"
  shows "(ans = Inl e \<longrightarrow> out = Inr (st_failure, Some (str_exn E e)))
    \<and> (ans = Inr r \<and> 400 \<le> status_code r \<and> status_code r < 600 \<and> body r = Inr j \<longrightarrow>
         out = Inr (st_failure, Some (json_dumps E j)))
    \<and> (ans = Inr r \<and> 400 \<le> status_code r \<and> status_code r < 600 \<and> body r = Inl e \<longrightarrow>
         out = Inr (st_failure, Some (http_error_msg r)))
    \<and> (ans = Inr r \<and> \<not> (400 \<le> status_code r \<and> status_code r < 600) \<and> body r = Inl e \<longrightarrow>
         out = Inr (st_failure, Some (str_exn E e)))
    \<and> (ans = Inr r \<and> \<not> (400 \<le> status_code r \<and> status_code r < 600)
         \<and> body r = Inr (JDict kvs) \<and> map_of kvs (asc ''error'') = Some v \<longrightarrow>
         out = Inr (st_failure, Some (msg_api_error @ py_str E v)))
    \<and> (ans = Inr r \<and> \<not> (400 \<le> status_code r \<and> status_code r < 600)
         \<and> body r = Inr (JDict kvs) \<and> map_of kvs (asc ''error'') = None
         \<and> map_of kvs (asc ''task_id'') = Some v \<longrightarrow>
         out = Inr (st_success, None))
    \<and> (ans = Inr r \<and> \<not> (400 \<le> status_code r \<and> status_code r < 600)
         \<and> body r = Inr (JDict kvs) \<and> map_of kvs (asc ''error'') = None
         \<and> map_of kvs (asc ''task_id'') = None \<longrightarrow>
         out = Inr (st_success_no_task_id, None))
    \<and> (ans = Inr r \<and> \<not> (400 \<le> status_code r \<and> status_code r < 600) \<and> body r = Inr j
         \<and> (j = JNull \<or> j = JBool b \<or> j = JInt i \<or> j = JFloat f) \<longrightarrow>
         out = Inr (st_failure, Some (builtin_text E (TypeErrorIn j))))"
proof -
  have transport: "ans = Inl e \<Longrightarrow> out = Inr (st_failure, Some (str_exn E e))"
    using out ans by (simp add: send_reindex_yandex_def submit_handlers_unbound)
  have http_json: "out = Inr (st_failure, Some (json_dumps E j))"
    if "ans = Inr r" "400 \<le> status_code r" "status_code r < 600" "body r = Inr j"
    using that out ans
    by (simp add: send_reindex_yandex_def yandex_classify_def raise_for_status_error
        submit_handlers_http_json)
  have http_text: "out = Inr (st_failure, Some (http_error_msg r))"
    if "ans = Inr r" "400 \<le> status_code r" "status_code r < 600" "body r = Inl e"
    using that out ans
    by (simp add: send_reindex_yandex_def yandex_classify_def raise_for_status_error
        submit_handlers_no_json str_exn_def)
  have undecodable: "out = Inr (st_failure, Some (str_exn E e))"
    if "ans = Inr r" "\<not> (400 \<le> status_code r \<and> status_code r < 600)" "body r = Inl e"
    using that out ans
    by (simp add: send_reindex_yandex_def yandex_classify_def raise_for_status_ok
        submit_handlers_no_json)
  have error_field: "out = Inr (st_failure, Some (msg_api_error @ py_str E v))"
    if "ans = Inr r" "\<not> (400 \<le> status_code r \<and> status_code r < 600)"
      "body r = Inr (JDict kvs)" "map_of kvs (asc ''error'') = Some v"
    using that out ans
    by (simp add: send_reindex_yandex_def yandex_classify_def raise_for_status_ok
        py_in_JDict del: py_in.simps)
  have task_id: "out = Inr (st_success, None)"
    if "ans = Inr r" "\<not> (400 \<le> status_code r \<and> status_code r < 600)"
      "body r = Inr (JDict kvs)" "map_of kvs (asc ''error'') = None"
      "map_of kvs (asc ''task_id'') = Some v"
    using that out ans
    by (simp add: send_reindex_yandex_def yandex_classify_def raise_for_status_ok
        py_in_JDict del: py_in.simps)
  have neither: "out = Inr (st_success_no_task_id, None)"
    if "ans = Inr r" "\<not> (400 \<le> status_code r \<and> status_code r < 600)"
      "body r = Inr (JDict kvs)" "map_of kvs (asc ''error'') = None"
      "map_of kvs (asc ''task_id'') = None"
    using that out ans
    by (simp add: send_reindex_yandex_def yandex_classify_def raise_for_status_ok
        py_in_JDict del: py_in.simps)
  have no_container: "out = Inr (st_failure, Some (builtin_text E (TypeErrorIn j)))"
    if "ans = Inr r" "\<not> (400 \<le> status_code r \<and> status_code r < 600)" "body r = Inr j"
      "j = JNull \<or> j = JBool b \<or> j = JInt i \<or> j = JFloat f"
    using that out ans
    by (auto simp: send_reindex_yandex_def yandex_classify_def raise_for_status_ok
        submit_handlers_def str_exn_def)
  show ?thesis
    by (intro conjI impI; (elim conjE)?;
        (rule transport http_json http_text undecodable error_field task_id neither
           no_container; assumption))
qed

text \<open>The theorem at a body with a task identifier, at a body with both an \<open>error\<close> and
  a task identifier, and at a status 500 with a JSON body.\<close>

theorem yandex_outcome_classification_witness:
  "fst (send_reindex_yandex
          (demo_env (Inr (demo_response 200 (JDict [(asc ''task_id'', JInt 1)])))
             (Inl (LibError [])) (Inr []))
          (JInt 7) (asc ''https:example.com:443'') (asc ''https://a.com/'') [])
     = Inr (st_success, None)
   \<and> fst (send_reindex_yandex
          (demo_env (Inr (demo_response 200 (JDict [(asc ''error'', JStr (asc ''quota'')),
                                                    (asc ''task_id'', JInt 1)])))
             (Inl (LibError [])) (Inr []))
          (JInt 7) (asc ''https:example.com:443'') (asc ''https://a.com/'') [])
     = Inr (st_failure, Some (msg_api_error @ asc ''quota''))
   \<and> fst (send_reindex_yandex
          (demo_env (Inr (demo_response 500 (JDict []))) (Inl (LibError [])) (Inr []))
          (JInt 7) (asc ''https:example.com:443'') (asc ''https://a.com/'') [])
     = Inr (st_failure, Some (asc ''dumps''))"
proof -
  let ?u = "JInt 7" and ?h = "asc ''https:example.com:443''" and ?url = "asc ''https://a.com/''"
  have task: "fst (send_reindex_yandex
          (demo_env (Inr (demo_response 200 (JDict [(asc ''task_id'', JInt 1)])))
             (Inl (LibError [])) (Inr [])) ?u ?h ?url [])
     = Inr (st_success, None)"
    by (rule yandex_outcome_classification
        [where r = "demo_response 200 (JDict [(asc ''task_id'', JInt 1)])"
           and kvs = "[(asc ''task_id'', JInt 1)]" and v = "JInt 1", OF refl refl,
         THEN conjunct2, THEN conjunct2, THEN conjunct2, THEN conjunct2, THEN conjunct2,
         THEN conjunct1, THEN mp])
      (simp add: demo_post_yandex demo_response_def asc_def)
  have err: "fst (send_reindex_yandex
          (demo_env (Inr (demo_response 200 (JDict [(asc ''error'', JStr (asc ''quota'')),
                                                    (asc ''task_id'', JInt 1)])))
             (Inl (LibError [])) (Inr [])) ?u ?h ?url [])
     = Inr (st_failure, Some (msg_api_error @ py_str E' (JStr (asc ''quota''))))"
    if "E' = demo_env (Inr (demo_response 200 (JDict [(asc ''error'', JStr (asc ''quota'')),
                                                    (asc ''task_id'', JInt 1)])))
             (Inl (LibError [])) (Inr [])" for E'
    unfolding that
    by (rule yandex_outcome_classification
        [where r = "demo_response 200 (JDict [(asc ''error'', JStr (asc ''quota'')),
                                              (asc ''task_id'', JInt 1)])"
           and kvs = "[(asc ''error'', JStr (asc ''quota'')), (asc ''task_id'', JInt 1)]"
           and v = "JStr (asc ''quota'')", OF refl refl,
         THEN conjunct2, THEN conjunct2, THEN conjunct2, THEN conjunct2,
         THEN conjunct1, THEN mp])
      (simp add: demo_post_yandex demo_response_def asc_def)
  have http: "fst (send_reindex_yandex
          (demo_env (Inr (demo_response 500 (JDict []))) (Inl (LibError [])) (Inr []))
          ?u ?h ?url [])
     = Inr (st_failure, Some (json_dumps E' (JDict [])))"
    if "E' = demo_env (Inr (demo_response 500 (JDict []))) (Inl (LibError [])) (Inr [])" for E'
    unfolding that
    by (rule yandex_outcome_classification
        [where r = "demo_response 500 (JDict [])" and j = "JDict []", OF refl refl,
         THEN conjunct2, THEN conjunct1, THEN mp])
      (simp add: demo_post_yandex demo_response_def)
  show ?thesis
    using task err [OF refl] http [OF refl] by (simp add: py_str_def demo_env_def)
qed

text \<open>
  Claim C1 as the specification states it fails twice. A status 200 with the body
  \<open>null\<close> is no transport or HTTP failure, has no \<open>error\<close> field and no task identifier,
  yet the outcome is Failure and not SuccessNoConfirmation. And for the body
  \<open>{"error": "quota"}\<close> the detail is not the content \<open>quota\<close> of the field but that
  content after the prefix.
\<close>

theorem yandex_outcome_classification_counterexample:
  "fst (send_reindex_yandex
          (demo_env (Inr (demo_response 200 JNull)) (Inl (LibError [])) (Inr []))
          (JInt 7) (asc ''https:example.com:443'') (asc ''https://a.com/'') [])
     = Inr (st_failure, Some (asc ''error''))
   \<and> Inr (st_failure, Some (asc ''error'')) \<noteq> (Inr (st_success_no_task_id, None) :: exn + outcome)
   \<and> fst (send_reindex_yandex
          (demo_env (Inr (demo_response 200 (JDict [(asc ''error'', JStr (asc ''quota''))])))
             (Inl (LibError [])) (Inr []))
          (JInt 7) (asc ''https:example.com:443'') (asc ''https://a.com/'') [])
     = Inr (st_failure, Some (msg_api_error @ asc ''quota''))
   \<and> msg_api_error @ asc ''quota'' \<noteq> asc ''quota''"
  by (simp add: send_reindex_yandex_def yandex_classify_def raise_for_status_def
      submit_handlers_def str_exn_def py_str_def demo_env_def demo_post_def demo_response_def
      yandex_request_def YANDEX_API_BASE_def GOOGLE_API_BASE_def msg_api_error_def
      st_failure_def st_success_no_task_id_def asc_def)

text \<open>
  Claim C5: whatever \<open>requests.post\<close> does (raise anything, answer with any status and
  any body, JSON or not) and whatever the arguments are, \<open>send_reindex_yandex\<close> raises
  nothing: it returns a pair of a status and a detail.
\<close>

theorem send_reindex_yandex_never_raises:
  "\<exists>status detail. fst (send_reindex_yandex E user_id host_id url tr) = Inr (status, detail)"
  by (rule send_reindex_yandex_returns)

text \<open>The theorem where the POST itself raises an \<open>HTTPError\<close>, so that \<open>response\<close> is
  unbound in the handler.\<close>

theorem send_reindex_yandex_never_raises_witness:
  "\<exists>status detail.
     fst (send_reindex_yandex (demo_env (Inl (HTTPError (asc ''503''))) (Inl (LibError [])) (Inr []))
            (JInt 7) (asc ''https:example.com:443'') (asc ''https://a.com/'') [])
       = Inr (status, detail)"
  by (rule send_reindex_yandex_never_raises)

subsection \<open>The host identifier\<close>

text \<open>
  Claim C6: when \<open>urlparse\<close> gives a non-empty scheme and a non-empty authority for the
  site URL, \<open>build_yandex_host_id\<close> returns exactly \<open>scheme:authority:port\<close>, the port
  being 443 for the scheme \<open>https\<close> and 80 for any other; in particular
  \<open>http://example.org\<close>, parsed as \<open>http\<close> and \<open>example.org\<close>, gives
  \<open>http:example.org:80\<close>. When the scheme or the authority is empty, or \<open>urlparse\<close>
  raises, the function raises and returns no host identifier.
\<close>

theorem build_yandex_host_id_format:
  "(urlparse E site_url = Inr (scheme, netloc) \<and> scheme \<noteq> [] \<and> netloc \<noteq> [] \<longrightarrow>
      build_yandex_host_id E site_url =
        Inr (scheme @ asc '':'' @ netloc @ asc '':'' @
             (if scheme = asc ''https'' then asc ''443'' else asc ''80'')))
   \<and> (urlparse E (asc ''http://example.org'') = Inr (asc ''http'', asc ''example.org'') \<longrightarrow>
        build_yandex_host_id E (asc ''http://example.org'') = Inr (asc ''http:example.org:80''))
   \<and> (urlparse E site_url = Inr (scheme, netloc) \<and> (scheme = [] \<or> netloc = []) \<longrightarrow>
        (\<exists>e. build_yandex_host_id E site_url = Inl e))
   \<and> (\<forall>e. urlparse E site_url = Inl e \<longrightarrow> build_yandex_host_id E site_url = Inl e)"
  by (simp add: build_yandex_host_id_def asc_def)

text \<open>The theorem at \<open>http://example.org\<close> and at \<open>example.org\<close>, which has no
  scheme.\<close>

theorem build_yandex_host_id_format_witness:
  "build_yandex_host_id (demo_env (Inl (LibError [])) (Inl (LibError [])) (Inr []))
       (asc ''http://example.org'')
     = Inr (asc ''http:example.org:80'')
   \<and> (\<exists>e. build_yandex_host_id (demo_env (Inl (LibError [])) (Inl (LibError [])) (Inr []))
          (asc ''example.org'') = Inl e)"
proof -
  let ?E = "demo_env (Inl (LibError [])) (Inl (LibError [])) (Inr [])"
  have p1: "urlparse ?E (asc ''http://example.org'') = Inr (asc ''http'', asc ''example.org'')"
    by (simp add: demo_env_def demo_urlparse_def asc_def)
  have p2: "urlparse ?E (asc ''example.org'') = Inr ([], [])"
    by (simp add: demo_env_def demo_urlparse_def asc_def)
  from build_yandex_host_id_format [of ?E _ "asc ''http''" "asc ''example.org''"] p1
  have "build_yandex_host_id ?E (asc ''http://example.org'') = Inr (asc ''http:example.org:80'')"
    by blast
  moreover
  from build_yandex_host_id_format [of ?E "asc ''example.org''" "[]" "[]"] p2
  have "\<exists>e. build_yandex_host_id ?E (asc ''example.org'') = Inl e"
    by blast
  ultimately show ?thesis by simp
qed

subsection \<open>The Secondary submitter\<close>

text \<open>
  Claim C2, as the code has it. Let the token be acquired, \<open>ans\<close> be what
  \<open>requests.post\<close> gives and \<open>out\<close> what \<open>publish_url_google\<close> returns.
  \<^item> When the POST raises, the outcome is Failure with the text of the exception; when the
    status is from 400 to 599, it is Failure with \<open>json.dumps\<close> of the body when the body
    is JSON, else with the text of the \<open>HTTPError\<close>; when the body of another status is
    not JSON, it is Failure with the text of the decoding error.
  \<^item> When the body is an object without the key \<open>urlNotificationMetadata\<close>, the outcome
    is Failure with the fixed text "Unexpected format of the answer of Google API" (in
    Russian).
  \<^item> When the envelope is an object whose \<open>latestUpdate\<close> is an object with a \<open>type\<close>
    other than the action, the outcome is Failure and the detail is "Expected type ",
    the action, ", received " and \<open>str()\<close> of the type found.
  \<^item> When that type is the action, or the envelope is an object with no \<open>latestUpdate\<close>,
    or \<open>latestUpdate\<close> is an object with no \<open>type\<close>, the outcome is Success.
  \<^item> When the whole body, the envelope, or the \<open>latestUpdate\<close> of an object envelope is
    \<open>null\<close>, a boolean or a number, the outcome is Failure with the text of the
    \<open>TypeError\<close> that the membership test raises.
\<close>

theorem google_outcome_classification:
  assumes out: "out = fst (publish_url_google E url action tr)"
      and tok: "refresh_token E tr = Inr token"
      and ans: "ans = http_post E (tr @ [TokenRefresh]) (google_request token url action)"
  shows "(ans = Inl e \<longrightarrow> out = Inr (st_failure, Some (str_exn E e)))
    \<and> (ans = Inr r \<and> 400 \<le> status_code r \<and> status_code r < 600 \<and> body r = Inr j \<longrightarrow>
         out = Inr (st_failure, Some (json_dumps E j)))
    \<and> (ans = Inr r \<and> 400 \<le> status_code r \<and> status_code r < 600 \<and> body r = Inl e \<longrightarrow>
         out = Inr (st_failure, Some (http_error_msg r)))
    \<and> (ans = Inr r \<and> \<not> (400 \<le> status_code r \<and> status_code r < 600) \<and> body r = Inl e \<longrightarrow>
         out = Inr (st_failure, Some (str_exn E e)))
    \<and> (ans = Inr r \<and> \<not> (400 \<le> status_code r \<and> status_code r < 600)
         \<and> body r = Inr (JDict kvs) \<and> map_of kvs (asc ''urlNotificationMetadata'') = None \<longrightarrow>
         out = Inr (st_failure, Some msg_unexpected_format))
    \<and> (ans = Inr r \<and> \<not> (400 \<le> status_code r \<and> status_code r < 600)
         \<and> body r = Inr (JDict kvs)
         \<and> map_of kvs (asc ''urlNotificationMetadata'') = Some (JDict md)
         \<and> map_of md (asc ''latestUpdate'') = Some (JDict lu)
         \<and> map_of lu (asc ''type'') = Some ty \<and> ty \<noteq> JStr action \<longrightarrow>
         out = Inr (st_failure,
                 Some (msg_expected_type @ action @ msg_received @ py_str E ty)))
    \<and> (ans = Inr r \<and> \<not> (400 \<le> status_code r \<and> status_code r < 600)
         \<and> body r = Inr (JDict kvs)
         \<and> map_of kvs (asc ''urlNotificationMetadata'') = Some (JDict md)
         \<and> map_of md (asc ''latestUpdate'') = Some (JDict lu)
         \<and> map_of lu (asc ''type'') = Some (JStr action) \<longrightarrow>
         out = Inr (st_success, None))
    \<and> (ans = Inr r \<and> \<not> (400 \<le> status_code r \<and> status_code r < 600)
         \<and> body r = Inr (JDict kvs)
         \<and> map_of kvs (asc ''urlNotificationMetadata'') = Some (JDict md)
         \<and> map_of md (asc ''latestUpdate'') = Some (JDict lu)
         \<and> map_of lu (asc ''type'') = None \<longrightarrow>
         out = Inr (st_success, None))
    \<and> (ans = Inr r \<and> \<not> (400 \<le> status_code r \<and> status_code r < 600)
         \<and> body r = Inr (JDict kvs)
         \<and> map_of kvs (asc ''urlNotificationMetadata'') = Some (JDict md)
         \<and> map_of md (asc ''latestUpdate'') = None \<longrightarrow>
         out = Inr (st_success, None))
    \<and> (ans = Inr r \<and> \<not> (400 \<le> status_code r \<and> status_code r < 600)
         \<and> body r = Inr (JDict kvs)
         \<and> map_of kvs (asc ''urlNotificationMetadata'') = Some j
         \<and> (j = JNull \<or> j = JBool b \<or> j = JInt i \<or> j = JFloat f) \<longrightarrow>
         out = Inr (st_failure, Some (builtin_text E (TypeErrorIn j))))
    \<and> (ans = Inr r \<and> \<not> (400 \<le> status_code r \<and> status_code r < 600) \<and> body r = Inr j
         \<and> (j = JNull \<or> j = JBool b \<or> j = JInt i \<or> j = JFloat f) \<longrightarrow>
         out = Inr (st_failure, Some (builtin_text E (TypeErrorIn j))))
    \<and> (ans = Inr r \<and> \<not> (400 \<le> status_code r \<and> status_code r < 600)
         \<and> body r = Inr (JDict kvs)
         \<and> map_of kvs (asc ''urlNotificationMetadata'') = Some (JDict md)
         \<and> map_of md (asc ''latestUpdate'') = Some j
         \<and> (j = JNull \<or> j = JBool b \<or> j = JInt i \<or> j = JFloat f) \<longrightarrow>
         out = Inr (st_failure, Some (builtin_text E (TypeErrorIn j))))"
proof -
  note start = out [unfolded publish_url_google_token_ok [OF tok], folded ans]
  have transport: "ans = Inl e \<Longrightarrow> out = Inr (st_failure, Some (str_exn E e))"
    using start by (simp add: submit_handlers_unbound)
  have http_json: "out = Inr (st_failure, Some (json_dumps E j))"
    if "ans = Inr r" "400 \<le> status_code r" "status_code r < 600" "body r = Inr j"
    using that start by (simp add: google_classify_error_status submit_handlers_http_json)
  have http_text: "out = Inr (st_failure, Some (http_error_msg r))"
    if "ans = Inr r" "400 \<le> status_code r" "status_code r < 600" "body r = Inl e"
    using that start
    by (simp add: google_classify_error_status submit_handlers_no_json str_exn_def)
  have undecodable: "out = Inr (st_failure, Some (str_exn E e))"
    if "ans = Inr r" "\<not> (400 \<le> status_code r \<and> status_code r < 600)" "body r = Inl e"
    using that start by (simp add: google_classify_body submit_handlers_no_json)
  have no_envelope: "out = Inr (st_failure, Some msg_unexpected_format)"
    if "ans = Inr r" "\<not> (400 \<le> status_code r \<and> status_code r < 600)"
      "body r = Inr (JDict kvs)" "map_of kvs (asc ''urlNotificationMetadata'') = None"
    using that start by (simp add: google_classify_body py_in_JDict del: py_in.simps)
  have mismatch: "out = Inr (st_failure,
                 Some (msg_expected_type @ action @ msg_received @ py_str E ty))"
    if "ans = Inr r" "\<not> (400 \<le> status_code r \<and> status_code r < 600)"
      "body r = Inr (JDict kvs)"
      "map_of kvs (asc ''urlNotificationMetadata'') = Some (JDict md)"
      "map_of md (asc ''latestUpdate'') = Some (JDict lu)"
      "map_of lu (asc ''type'') = Some ty" "ty \<noteq> JStr action"
    using that start by (simp add: google_classify_body py_in_JDict del: py_in.simps)
  have match: "out = Inr (st_success, None)"
    if "ans = Inr r" "\<not> (400 \<le> status_code r \<and> status_code r < 600)"
      "body r = Inr (JDict kvs)"
      "map_of kvs (asc ''urlNotificationMetadata'') = Some (JDict md)"
      "map_of md (asc ''latestUpdate'') = Some (JDict lu)"
      "map_of lu (asc ''type'') = Some (JStr action)"
    using that start by (simp add: google_classify_body py_in_JDict del: py_in.simps)
  have no_type: "out = Inr (st_success, None)"
    if "ans = Inr r" "\<not> (400 \<le> status_code r \<and> status_code r < 600)"
      "body r = Inr (JDict kvs)"
      "map_of kvs (asc ''urlNotificationMetadata'') = Some (JDict md)"
      "map_of md (asc ''latestUpdate'') = Some (JDict lu)"
      "map_of lu (asc ''type'') = None"
    using that start by (simp add: google_classify_body py_in_JDict del: py_in.simps)
  have no_latest: "out = Inr (st_success, None)"
    if "ans = Inr r" "\<not> (400 \<le> status_code r \<and> status_code r < 600)"
      "body r = Inr (JDict kvs)"
      "map_of kvs (asc ''urlNotificationMetadata'') = Some (JDict md)"
      "map_of md (asc ''latestUpdate'') = None"
    using that start by (simp add: google_classify_body py_in_JDict del: py_in.simps)
  have bad_envelope: "out = Inr (st_failure, Some (builtin_text E (TypeErrorIn j)))"
    if "ans = Inr r" "\<not> (400 \<le> status_code r \<and> status_code r < 600)"
      "body r = Inr (JDict kvs)" "map_of kvs (asc ''urlNotificationMetadata'') = Some j"
      "j = JNull \<or> j = JBool b \<or> j = JInt i \<or> j = JFloat f"
    using that(1-4) start py_in_no_container [OF that(5), of "asc ''latestUpdate''"]
    by (simp add: google_classify_body py_in_JDict submit_handlers_type_error
        del: py_in.simps)
  have bad_body: "out = Inr (st_failure, Some (builtin_text E (TypeErrorIn j)))"
    if "ans = Inr r" "\<not> (400 \<le> status_code r \<and> status_code r < 600)" "body r = Inr j"
      "j = JNull \<or> j = JBool b \<or> j = JInt i \<or> j = JFloat f"
    using that(1-3) start py_in_no_container [OF that(4), of "asc ''urlNotificationMetadata''"]
    by (simp add: google_classify_body submit_handlers_type_error del: py_in.simps)
  have bad_latest: "out = Inr (st_failure, Some (builtin_text E (TypeErrorIn j)))"
    if "ans = Inr r" "\<not> (400 \<le> status_code r \<and> status_code r < 600)"
      "body r = Inr (JDict kvs)"
      "map_of kvs (asc ''urlNotificationMetadata'') = Some (JDict md)"
      "map_of md (asc ''latestUpdate'') = Some j"
      "j = JNull \<or> j = JBool b \<or> j = JInt i \<or> j = JFloat f"
    using that(1-5) start py_in_no_container [OF that(6), of "asc ''type''"]
    by (simp add: google_classify_body py_in_JDict submit_handlers_type_error
        del: py_in.simps)
  show ?thesis
    by (intro conjI impI; (elim conjE)?;
        (rule transport http_json http_text undecodable no_envelope mismatch match no_type
           no_latest bad_envelope bad_body bad_latest; assumption))
qed

text \<open>The theorem at an envelope whose latest type is \<open>URL_DELETED\<close>, at an empty
  envelope, and at a body without an envelope, for the action \<open>URL_UPDATED\<close>.\<close>

theorem google_outcome_classification_witness:
  "fst (publish_url_google
          (demo_env (Inl (LibError []))
             (Inr (demo_response 200
                (JDict [(asc ''urlNotificationMetadata'',
                   JDict [(asc ''latestUpdate'',
                      JDict [(asc ''type'', JStr (asc ''URL_DELETED''))])])])))
             (Inr (asc ''token'')))
          (asc ''https://a.com/'') (asc ''URL_UPDATED'') [])
     = Inr (st_failure,
         Some (msg_expected_type @ asc ''URL_UPDATED'' @ msg_received @ asc ''URL_DELETED''))
   \<and> fst (publish_url_google
          (demo_env (Inl (LibError []))
             (Inr (demo_response 200 (JDict [(asc ''urlNotificationMetadata'', JDict [])])))
             (Inr (asc ''token'')))
          (asc ''https://a.com/'') (asc ''URL_UPDATED'') [])
     = Inr (st_success, None)
   \<and> fst (publish_url_google
          (demo_env (Inl (LibError [])) (Inr (demo_response 200 (JDict [])))
             (Inr (asc ''token'')))
          (asc ''https://a.com/'') (asc ''URL_UPDATED'') [])
     = Inr (st_failure, Some msg_unexpected_format)"
proof -
  have mismatch: "fst (publish_url_google
          (demo_env (Inl (LibError []))
             (Inr (demo_response 200
                (JDict [(asc ''urlNotificationMetadata'',
                   JDict [(asc ''latestUpdate'',
                      JDict [(asc ''type'', JStr (asc ''URL_DELETED''))])])])))
             (Inr (asc ''token'')))
          (asc ''https://a.com/'') (asc ''URL_UPDATED'') [])
     = Inr (st_failure,
         Some (msg_expected_type @ asc ''URL_UPDATED'' @ msg_received
               @ py_str E' (JStr (asc ''URL_DELETED''))))"
    if "E' = demo_env (Inl (LibError []))
             (Inr (demo_response 200
                (JDict [(asc ''urlNotificationMetadata'',
                   JDict [(asc ''latestUpdate'',
                      JDict [(asc ''type'', JStr (asc ''URL_DELETED''))])])])))
             (Inr (asc ''token''))" for E'
    unfolding that
    by (rule google_outcome_classification
        [where r = "demo_response 200
                (JDict [(asc ''urlNotificationMetadata'',
                   JDict [(asc ''latestUpdate'',
                      JDict [(asc ''type'', JStr (asc ''URL_DELETED''))])])])"
           and kvs = "[(asc ''urlNotificationMetadata'',
                   JDict [(asc ''latestUpdate'',
                      JDict [(asc ''type'', JStr (asc ''URL_DELETED''))])])]"
           and md = "[(asc ''latestUpdate'', JDict [(asc ''type'', JStr (asc ''URL_DELETED''))])]"
           and lu = "[(asc ''type'', JStr (asc ''URL_DELETED''))]"
           and ty = "JStr (asc ''URL_DELETED'')", OF refl demo_refresh refl,
         THEN conjunct2, THEN conjunct2, THEN conjunct2, THEN conjunct2, THEN conjunct2,
         THEN conjunct1, THEN mp])
      (simp add: demo_post_google demo_response_def asc_def)
  have no_latest: "fst (publish_url_google
          (demo_env (Inl (LibError []))
             (Inr (demo_response 200 (JDict [(asc ''urlNotificationMetadata'', JDict [])])))
             (Inr (asc ''token'')))
          (asc ''https://a.com/'') (asc ''URL_UPDATED'') [])
     = Inr (st_success, None)"
    by (rule google_outcome_classification
        [where r = "demo_response 200 (JDict [(asc ''urlNotificationMetadata'', JDict [])])"
           and kvs = "[(asc ''urlNotificationMetadata'', JDict [])]"
           and md = "[]", OF refl demo_refresh refl,
         THEN conjunct2, THEN conjunct2, THEN conjunct2, THEN conjunct2, THEN conjunct2,
         THEN conjunct2, THEN conjunct2, THEN conjunct2, THEN conjunct1, THEN mp])
      (simp add: demo_post_google demo_response_def)
  have no_envelope: "fst (publish_url_google
          (demo_env (Inl (LibError [])) (Inr (demo_response 200 (JDict [])))
             (Inr (asc ''token'')))
          (asc ''https://a.com/'') (asc ''URL_UPDATED'') [])
     = Inr (st_failure, Some msg_unexpected_format)"
    by (rule google_outcome_classification
        [where r = "demo_response 200 (JDict [])" and kvs = "[]", OF refl demo_refresh refl,
         THEN conjunct2, THEN conjunct2, THEN conjunct2, THEN conjunct2,
         THEN conjunct1, THEN mp])
      (simp add: demo_post_google demo_response_def)
  show ?thesis
    using mismatch [OF refl] no_latest no_envelope by (simp add: py_str_def)
qed

text \<open>
  Claim C2 as the specification states it fails at the bodies
  \<open>{"urlNotificationMetadata": {"latestUpdate": null}}\<close> and
  \<open>{"urlNotificationMetadata": null}\<close> with status 200: the envelope is there and holds
  no latest-update information, yet the outcome is Failure; and were the envelope counted
  as lacking, the detail is the text of a \<open>TypeError\<close>, not the fixed text. The same for
  the body \<open>null\<close>.
\<close>

theorem google_outcome_classification_counterexample:
  "fst (publish_url_google
          (demo_env (Inl (LibError []))
             (Inr (demo_response 200
                (JDict [(asc ''urlNotificationMetadata'', JDict [(asc ''latestUpdate'', JNull)])])))
             (Inr (asc ''token'')))
          (asc ''https://a.com/'') (asc ''URL_UPDATED'') [])
     = Inr (st_failure, Some (asc ''error''))
   \<and> fst (publish_url_google
          (demo_env (Inl (LibError []))
             (Inr (demo_response 200 (JDict [(asc ''urlNotificationMetadata'', JNull)])))
             (Inr (asc ''token'')))
          (asc ''https://a.com/'') (asc ''URL_UPDATED'') [])
     = Inr (st_failure, Some (asc ''error''))
   \<and> st_failure \<noteq> st_success
   \<and> asc ''error'' \<noteq> msg_unexpected_format
   \<and> fst (publish_url_google
          (demo_env (Inl (LibError [])) (Inr (demo_response 200 JNull)) (Inr (asc ''token'')))
          (asc ''https://a.com/'') (asc ''URL_UPDATED'') [])
     = Inr (st_failure, Some (asc ''error''))"
  by (simp add: publish_url_google_token_ok [OF demo_refresh] demo_post_google
      google_classify_def raise_for_status_def submit_handlers_def str_exn_def
      demo_response_def st_failure_def st_success_def msg_unexpected_format_def)
    (simp add: demo_env_def asc_def)

subsection \<open>The outcomes of both submitters\<close>

text \<open>
  Claim C10, as the code has it. For a pair \<open>(status, detail)\<close> returned by either
  submitter: the detail is \<open>None\<close> exactly when the status is one of the two success
  tags; the status is one of the three tags; a Failure carries a string. That string is
  not empty whenever the texts supplied by the libraries are not empty (the texts of the
  interpreter's exceptions, and for every answer to a POST the texts named by
  \<open>answer_texts_nonempty\<close>).
\<close>

theorem outcome_detail_invariant:
  assumes "fst (send_reindex_yandex E user_id host_id url tr) = Inr (status, detail)
           \<or> fst (publish_url_google E url action tr) = Inr (status, detail)"
  shows "(detail = None \<longleftrightarrow> status = st_success \<or> status = st_success_no_task_id)
    \<and> (status = st_failure \<or> status = st_success \<or> status = st_success_no_task_id)
    \<and> (status = st_failure \<longrightarrow> (\<exists>t. detail = Some t))
    \<and> (status = st_failure \<and> (\<forall>e. builtin_text E e \<noteq> [])
         \<and> (\<forall>tr' req. answer_texts_nonempty E (http_post E tr' req)) \<longrightarrow>
         detail \<noteq> Some [])"
proof -
  have shape: "(status = st_failure
          \<and> (\<exists>t. detail = Some t
                \<and> ((\<forall>e. builtin_text E e \<noteq> [])
                     \<and> (\<forall>tr' req. answer_texts_nonempty E (http_post E tr' req)) \<longrightarrow>
                   t \<noteq> [])))
         \<or> ((status = st_success \<or> status = st_success_no_task_id) \<and> detail = None)"
    using assms
  proof
    assume "fst (send_reindex_yandex E user_id host_id url tr) = Inr (status, detail)"
    then have "(case http_post E tr (yandex_request E user_id host_id url) of
                   Inl e \<Rightarrow> submit_handlers E None e
                 | Inr response \<Rightarrow>
                     (case yandex_classify E response of
                        Inl e \<Rightarrow> submit_handlers E (Some response) e
                      | Inr out \<Rightarrow> Inr out)) = Inr (status, detail)"
      by (simp add: send_reindex_yandex_def Let_def)
    moreover have "(s = st_failure \<and> (\<exists>t. d = Some t \<and> t \<noteq> []))
                      \<or> ((s = st_success \<or> s = st_success_no_task_id) \<and> d = None)"
      if "yandex_classify E r = Inr (s, d)" for r s d
      using yandex_classify_returns [OF that] .
    moreover have "e = HTTPError (http_error_msg r) \<or> body r = Inl e
                      \<or> str_exn E e = builtin_text E e"
      if "yandex_classify E r = Inl e" for r e
      using yandex_classify_raises [OF that] .
    ultimately have "(status = st_failure
          \<and> (\<exists>t. detail = Some t
                \<and> ((\<forall>e. builtin_text E e \<noteq> [])
                     \<and> answer_texts_nonempty E
                          (http_post E tr (yandex_request E user_id host_id url)) \<longrightarrow>
                   t \<noteq> [])))
         \<or> ((status = st_success \<or> status = st_success_no_task_id) \<and> detail = None)"
      by (rule outcome_shape [where classify = "yandex_classify E"])
    then show ?thesis by blast
  next
    assume g: "fst (publish_url_google E url action tr) = Inr (status, detail)"
    then obtain token where tok: "refresh_token E tr = Inr token"
      by (cases "refresh_token E tr") (simp_all add: publish_url_google_def get_access_token_def)
    have returns: "(s = st_failure \<and> (\<exists>t. d = Some t \<and> t \<noteq> []))
                      \<or> ((s = st_success \<or> s = st_success_no_task_id) \<and> d = None)"
      if "google_classify E r action = Inr (s, d)" for r s d
      using google_classify_returns [OF that] by blast
    have raises: "e = HTTPError (http_error_msg r) \<or> body r = Inl e
                      \<or> str_exn E e = builtin_text E e"
      if "google_classify E r action = Inl e" for r e
      using google_classify_raises [OF that] .
    from g [unfolded publish_url_google_token_ok [OF tok]]
    have "(status = st_failure
          \<and> (\<exists>t. detail = Some t
                \<and> ((\<forall>e. builtin_text E e \<noteq> [])
                     \<and> answer_texts_nonempty E
                          (http_post E (tr @ [TokenRefresh]) (google_request token url action))
                     \<longrightarrow> t \<noteq> [])))
         \<or> ((status = st_success \<or> status = st_success_no_task_id) \<and> detail = None)"
      by (rule outcome_shape [where classify = "\<lambda>r. google_classify E r action"])
        (fact returns raises)+
    then show ?thesis by blast
  qed
  from shape status_tags_distinct show ?thesis by auto
qed

text \<open>The theorem at a status 500 with a JSON body, in surroundings whose library texts
  are not empty: the detail is \<open>json.dumps\<close> of the body.\<close>

theorem outcome_detail_invariant_witness:
  "fst (send_reindex_yandex
          (demo_env (Inr (demo_response 500 (JDict []))) (Inr (demo_response 200 (JDict [])))
             (Inr (asc ''token'')))
          (JInt 7) (asc ''https:example.com:443'') (asc ''https://a.com/'') [])
     = Inr (st_failure, Some (asc ''dumps''))
   \<and> (\<forall>e. builtin_text
           (demo_env (Inr (demo_response 500 (JDict []))) (Inr (demo_response 200 (JDict [])))
              (Inr (asc ''token''))) e \<noteq> [])
   \<and> (\<forall>tr' req. answer_texts_nonempty
           (demo_env (Inr (demo_response 500 (JDict []))) (Inr (demo_response 200 (JDict [])))
              (Inr (asc ''token'')))
           (http_post
              (demo_env (Inr (demo_response 500 (JDict []))) (Inr (demo_response 200 (JDict [])))
                 (Inr (asc ''token''))) tr' req))
   \<and> Some (asc ''dumps'') \<noteq> (None :: pystr option)
   \<and> Some (asc ''dumps'') \<noteq> Some ([] :: pystr)"
proof -
  let ?E = "demo_env (Inr (demo_response 500 (JDict []))) (Inr (demo_response 200 (JDict [])))
              (Inr (asc ''token''))"
  have out: "fst (send_reindex_yandex ?E (JInt 7) (asc ''https:example.com:443'')
                    (asc ''https://a.com/'') [])
             = Inr (st_failure, Some (asc ''dumps''))"
    by (simp add: send_reindex_yandex_def demo_post_yandex yandex_classify_def
        raise_for_status_def submit_handlers_def demo_response_def)
      (simp add: demo_env_def)
  have builtin: "\<forall>e. builtin_text ?E e \<noteq> []"
    by (simp add: demo_env_def asc_def)
  have texts: "\<forall>tr' req. answer_texts_nonempty ?E (http_post ?E tr' req)"
    by (simp add: demo_env_def demo_post_def answer_texts_nonempty_def demo_response_def
        asc_def)
  from outcome_detail_invariant [OF disjI1 [OF out]] builtin texts
  have "Some (asc ''dumps'') \<noteq> (None :: pystr option)"
    and "Some (asc ''dumps'') \<noteq> Some ([] :: pystr)"
    by blast+
  with out builtin texts show ?thesis by blast
qed

text \<open>
  Claim C10 as stated fails: when \<open>requests.post\<close> raises an exception whose text is
  empty, the outcome is Failure and its detail is the empty string.
\<close>

theorem outcome_detail_invariant_counterexample:
  "fst (send_reindex_yandex
          (demo_env (Inl (LibError [])) (Inl (LibError [])) (Inr (asc ''token'')))
          (JInt 7) (asc ''https:example.com:443'') (asc ''https://a.com/'') [])
     = Inr (st_failure, Some [])"
  by (simp add: send_reindex_yandex_def demo_post_yandex submit_handlers_def str_exn_def)

subsection \<open>The batch run: aborted runs\<close>

text \<open>
  Claim C7: when the input file is there and its header row, each name stripped and
  freed of U+FEFF as the code does it, has no name \<open>URL\<close> (or the file has no row at
  all), the run ends with every file as it was: no output file is created and one that
  was there keeps its content. The run has then done at most the identity request, the
  existence check and the opening of the input file.
\<close>

theorem missing_url_column_no_output:
  assumes input: "files w input_file = Some t"
      and lacks: "t = [] \<or> asc ''URL'' \<notin> set (map normalize_fieldname (hd t))"
  shows "files (process_urls E input_file output_file w) = files w
    \<and> (trace (process_urls E input_file output_file w) = trace w
       \<or> trace (process_urls E input_file output_file w) = trace w @ [HttpGet (user_request E)]
       \<or> trace (process_urls E input_file output_file w)
           = trace w @ [HttpGet (user_request E), FileExists input_file, FileRead input_file])"
proof -
  have no_url: "asc ''URL'' \<notin> set fs" if "reader_fieldnames t = Some fs" for fs
    using that lacks by (auto simp: reader_fieldnames_def split: list.splits if_splits)
  obtain ru tr1 where u: "get_yandex_user_id E (trace w) = (ru, tr1)"
    by (cases "get_yandex_user_id E (trace w)")
  with get_yandex_user_id_trace [of E "trace w"]
  have tr1: "tr1 = trace w @ [HttpGet (user_request E)]" by simp
  show ?thesis
  proof (cases "build_yandex_host_id E (SITE_URL E)")
    case (Inl e)
    then show ?thesis by (simp add: process_urls_def)
  next
    case host: (Inr host_id)
    show ?thesis
    proof (cases ru)
      case (Inl e)
      with host u tr1 show ?thesis by (simp add: process_urls_def)
    next
      case (Inr user_id)
      show ?thesis
      proof (cases "reader_fieldnames t")
        case None
        with host u tr1 Inr input show ?thesis by (simp add: process_urls_def)
      next
        case (Some fs)
        with host u tr1 Inr input no_url [OF Some] show ?thesis
          by (simp add: process_urls_def)
      qed
    qed
  qed
qed

text \<open>The theorem for the header \<open>Name, Link\<close> and an output file that was there
  before the run.\<close>

theorem missing_url_column_no_output_witness:
  "files \<lparr>files = [asc ''urls.csv'' \<mapsto> [[asc ''Name'', asc '' Link '']],
                    asc ''results.csv'' \<mapsto> [[asc ''old'']]],
          trace = []\<rparr> (asc ''urls.csv'')
     = Some [[asc ''Name'', asc '' Link '']]
   \<and> asc ''URL'' \<notin> set (map normalize_fieldname [asc ''Name'', asc '' Link ''])
   \<and> files (process_urls
              (demo_env (Inr (demo_response 200 (JDict []))) (Inr (demo_response 200 (JDict [])))
                 (Inr (asc ''token'')))
              (asc ''urls.csv'') (asc ''results.csv'')
              \<lparr>files = [asc ''urls.csv'' \<mapsto> [[asc ''Name'', asc '' Link '']],
                        asc ''results.csv'' \<mapsto> [[asc ''old'']]],
               trace = []\<rparr>) (asc ''results.csv'')
     = Some [[asc ''old'']]"
proof -
  let ?t = "[[asc ''Name'', asc '' Link '']]"
  let ?w = "\<lparr>files = [asc ''urls.csv'' \<mapsto> ?t, asc ''results.csv'' \<mapsto> [[asc ''old'']]],
            trace = []\<rparr>"
  have input: "files ?w (asc ''urls.csv'') = Some ?t"
    by (simp add: asc_def)
  have lacks: "asc ''URL'' \<notin> set (map normalize_fieldname (hd ?t))"
    by (simp add: normalize_fieldname_def strip_def is_space_def asc_def)
  from missing_url_column_no_output [OF input disjI2 [OF lacks]]
  have "files (process_urls
              (demo_env (Inr (demo_response 200 (JDict []))) (Inr (demo_response 200 (JDict [])))
                 (Inr (asc ''token'')))
              (asc ''urls.csv'') (asc ''results.csv'') ?w) = files ?w"
    by blast
  then have "files (process_urls
              (demo_env (Inr (demo_response 200 (JDict []))) (Inr (demo_response 200 (JDict [])))
                 (Inr (asc ''token'')))
              (asc ''urls.csv'') (asc ''results.csv'') ?w) (asc ''results.csv'')
             = Some [[asc ''old'']]"
    by simp
  with input lacks show ?thesis by simp
qed

text \<open>
  Claim C8, as the code has it: the identity is resolved before the input file is looked
  at. With a missing input file the run derives the host identifier and ends there if
  that raises; else it sends the GET for the account and ends there if that raises; else
  it checks that the input file exists and ends. No file is written and no URL is
  submitted, but the identity request has been sent by the time the file is checked.
\<close>

theorem identity_resolved_before_input_check:
  assumes missing: "files w input_file = None"
  shows "process_urls E input_file output_file w =
     (case build_yandex_host_id E (SITE_URL E) of
        Inl e \<Rightarrow> w
      | Inr host_id \<Rightarrow>
          (case fst (get_yandex_user_id E (trace w)) of
             Inl e \<Rightarrow> w\<lparr>trace := trace w @ [HttpGet (user_request E)]\<rparr>
           | Inr user_id \<Rightarrow>
               w\<lparr>trace := trace w @ [HttpGet (user_request E), FileExists input_file]\<rparr>))"
proof -
  obtain ru tr1 where u: "get_yandex_user_id E (trace w) = (ru, tr1)"
    by (cases "get_yandex_user_id E (trace w)")
  with get_yandex_user_id_trace [of E "trace w"]
  have tr1: "tr1 = trace w @ [HttpGet (user_request E)]" by simp
  from u tr1 missing show ?thesis
    by (simp add: process_urls_def split: sum.splits)
qed

text \<open>The theorem for a run with no file at all.\<close>

theorem identity_resolved_before_input_check_witness:
  "files \<lparr>files = Map.empty, trace = []\<rparr> (asc ''urls.csv'') = None
   \<and> process_urls
        (demo_env (Inr (demo_response 200 (JDict []))) (Inr (demo_response 200 (JDict [])))
           (Inr (asc ''token'')))
        (asc ''urls.csv'') (asc ''results.csv'') \<lparr>files = Map.empty, trace = []\<rparr>
     = \<lparr>files = Map.empty,
        trace = [HttpGet (user_request
                   (demo_env (Inr (demo_response 200 (JDict [])))
                      (Inr (demo_response 200 (JDict []))) (Inr (asc ''token'')))),
                 FileExists (asc ''urls.csv'')]\<rparr>"
proof -
  have missing: "files \<lparr>files = Map.empty, trace = []\<rparr> (asc ''urls.csv'') = None"
    by simp
  from identity_resolved_before_input_check [OF missing] missing
  show ?thesis by (simp add: demo_host_id demo_user_id)
qed

text \<open>
  Claim C8 as stated fails: with a missing input file the run does perform a network
  call, the GET of the account, and performs it before the check of the input file.
\<close>

theorem identity_resolved_before_input_check_counterexample:
  "trace (process_urls
        (demo_env (Inr (demo_response 200 (JDict []))) (Inr (demo_response 200 (JDict [])))
           (Inr (asc ''token'')))
        (asc ''urls.csv'') (asc ''results.csv'') \<lparr>files = Map.empty, trace = []\<rparr>)
     = [HttpGet \<lparr>target = asc ''https://api.webmaster.yandex.net/v4/user'',
                 headers = [(asc ''Authorization'', asc ''OAuth secret''),
                            (asc ''Content-Type'', asc ''application/json'')],
                 payload = []\<rparr>,
        FileExists (asc ''urls.csv'')]"
  by (simp add: process_urls_def demo_host_id demo_user_id user_request_def
      YANDEX_API_BASE_def YANDEX_HEADERS_def)
    (simp add: demo_env_def asc_def)

subsection \<open>The batch run: the loop over the rows\<close>

text \<open>
  Claim C9 at an input where the code departs from it. The row holds the URL
  \<open>https://a.com/\<close>, the Primary API answers with status 500 and the token refresh
  raises. The Primary submitter is called first and returns Failure with its detail, and
  the Secondary submitter is called after it; but the exception of the token refresh
  leaves the Secondary submitter and the loop body, so no ResultRow is appended, the
  Primary outcome is recorded nowhere, no URL counts as processed, and the run writes no
  output. (Whenever the Secondary submitter returns, both outcomes are recorded:
  \<open>process_row_calls_both_submitters\<close>.)
\<close>

theorem token_failure_leaves_row_unrecorded:
  "row_get_URL (dict_row [asc ''URL''] [asc ''https://a.com/'']) = Some (asc ''https://a.com/'')
   \<and> strip (asc ''https://a.com/'') = asc ''https://a.com/''
   \<and> fst (send_reindex_yandex
            (demo_env (Inr (demo_response 500 (JDict [])))
               (Inr (demo_response 200 (JDict [(asc ''urlNotificationMetadata'', JDict [])])))
               (Inl (LibError (asc ''refresh failed''))))
            (JInt 7) (asc ''https:example.com:443'') (asc ''https://a.com/'') [])
       = Inr (st_failure, Some (asc ''dumps''))
   \<and> process_row
         (demo_env (Inr (demo_response 500 (JDict [])))
            (Inr (demo_response 200 (JDict [(asc ''urlNotificationMetadata'', JDict [])])))
            (Inl (LibError (asc ''refresh failed''))))
         (JInt 7) (asc ''https:example.com:443'') [asc ''URL''] [asc ''https://a.com/'']
         \<lparr>results = [], total_urls = 0, processed_urls = 0, calls = []\<rparr>
       = (Some (LibError (asc ''refresh failed'')),
          \<lparr>results = [], total_urls = 1, processed_urls = 0,
           calls = [HttpPost (yandex_request
                      (demo_env (Inr (demo_response 500 (JDict [])))
                         (Inr (demo_response 200
                            (JDict [(asc ''urlNotificationMetadata'', JDict [])])))
                         (Inl (LibError (asc ''refresh failed''))))
                      (JInt 7) (asc ''https:example.com:443'') (asc ''https://a.com/'')),
                    TokenRefresh]\<rparr>)
   \<and> files (process_urls
          (demo_env (Inr (demo_response 500 (JDict [])))
             (Inr (demo_response 200 (JDict [(asc ''urlNotificationMetadata'', JDict [])])))
             (Inl (LibError (asc ''refresh failed''))))
          (asc ''urls.csv'') (asc ''results.csv'')
          (demo_world [[asc ''URL''], [asc ''https://a.com/'']]))
       (asc ''results.csv'') = None"
proof -
  let ?E = "demo_env (Inr (demo_response 500 (JDict [])))
             (Inr (demo_response 200 (JDict [(asc ''urlNotificationMetadata'', JDict [])])))
             (Inl (LibError (asc ''refresh failed'')))"
  let ?t = "[[asc ''URL''], [asc ''https://a.com/'']]"
  have strip_url: "strip (asc ''https://a.com/'') = asc ''https://a.com/''"
    by (simp add: strip_def is_space_def asc_def)
  have row1: "row_get_URL (dict_row [asc ''URL''] [asc ''https://a.com/''])
                = Some (asc ''https://a.com/'')"
    by (simp add: row_get_URL_def dict_row_def)
  have nonempty: "asc ''https://a.com/'' \<noteq> []"
    by (simp add: asc_def)
  have row: "process_row ?E (JInt 7) (asc ''https:example.com:443'') [asc ''URL'']
          [asc ''https://a.com/'']
          \<lparr>results = [], total_urls = 0, processed_urls = 0, calls = tr\<rparr>
     = (Some (LibError (asc ''refresh failed'')),
        \<lparr>results = [], total_urls = 1, processed_urls = 0,
         calls = tr @ [HttpPost (yandex_request ?E (JInt 7) (asc ''https:example.com:443'')
                                  (asc ''https://a.com/'')),
                       TokenRefresh]\<rparr>)" for tr
    using nonempty
    by (simp add: process_row_def row1 strip_url demo_yandex_500 demo_google_token_fails
        Let_def)
  have names: "reader_fieldnames ?t = Some [asc ''URL'']"
    by (simp add: reader_fieldnames_def normalize_fieldname_def strip_def is_space_def asc_def)
  have names_differ: "asc ''results.csv'' \<noteq> asc ''urls.csv''"
    by (simp add: asc_def)
  have run: "files (process_urls ?E (asc ''urls.csv'') (asc ''results.csv'') (demo_world ?t))
               (asc ''results.csv'') = None"
    using names_differ
    by (simp add: process_urls_def demo_host_id demo_user_id demo_world_def names row Let_def)
  show ?thesis
    using row [of "[]"] by (simp add: row1 strip_url demo_yandex_500 run)
qed

text \<open>
  Claim C3 at an input where the code departs from it. The table has the header
  \<open>Name,URL\<close>, the row \<open>a,https://a.com/\<close> and the short row \<open>b\<close>. For the short
  row \<open>DictReader\<close> stores \<open>None\<close> under \<open>URL\<close>, \<open>row.get("URL", "")\<close> returns that
  \<open>None\<close>, and \<open>.strip()\<close> raises \<open>AttributeError\<close>: the loop ends with two rows
  counted, one processed and none skipped, and the run ends without writing the output,
  not even the row gathered for the first URL. (With a URL value in every row and tokens
  that can be acquired the loop does what the claim says: \<open>for_each_url_one_row_per_url\<close>.)
\<close>

theorem short_row_aborts_run:
  "fst (for_each_url
          (demo_env (Inr (demo_response 200 (JDict [(asc ''task_id'', JInt 1)])))
             (Inr (demo_response 200 (JDict [(asc ''urlNotificationMetadata'', JDict [])])))
             (Inr (asc ''token'')))
          (JInt 7) (asc ''https:example.com:443'') [asc ''Name'', asc ''URL'']
          [[asc ''a'', asc ''https://a.com/''], [asc ''b'']]
          \<lparr>results = [], total_urls = 0, processed_urls = 0, calls = []\<rparr>)
     = Some AttributeError
   \<and> total_urls (snd (for_each_url
          (demo_env (Inr (demo_response 200 (JDict [(asc ''task_id'', JInt 1)])))
             (Inr (demo_response 200 (JDict [(asc ''urlNotificationMetadata'', JDict [])])))
             (Inr (asc ''token'')))
          (JInt 7) (asc ''https:example.com:443'') [asc ''Name'', asc ''URL'']
          [[asc ''a'', asc ''https://a.com/''], [asc ''b'']]
          \<lparr>results = [], total_urls = 0, processed_urls = 0, calls = []\<rparr>)) = 2
   \<and> processed_urls (snd (for_each_url
          (demo_env (Inr (demo_response 200 (JDict [(asc ''task_id'', JInt 1)])))
             (Inr (demo_response 200 (JDict [(asc ''urlNotificationMetadata'', JDict [])])))
             (Inr (asc ''token'')))
          (JInt 7) (asc ''https:example.com:443'') [asc ''Name'', asc ''URL'']
          [[asc ''a'', asc ''https://a.com/''], [asc ''b'']]
          \<lparr>results = [], total_urls = 0, processed_urls = 0, calls = []\<rparr>)) = 1
   \<and> skipped_rows (calls (snd (for_each_url
          (demo_env (Inr (demo_response 200 (JDict [(asc ''task_id'', JInt 1)])))
             (Inr (demo_response 200 (JDict [(asc ''urlNotificationMetadata'', JDict [])])))
             (Inr (asc ''token'')))
          (JInt 7) (asc ''https:example.com:443'') [asc ''Name'', asc ''URL'']
          [[asc ''a'', asc ''https://a.com/''], [asc ''b'']]
          \<lparr>results = [], total_urls = 0, processed_urls = 0, calls = []\<rparr>))) = 0
   \<and> files (process_urls
          (demo_env (Inr (demo_response 200 (JDict [(asc ''task_id'', JInt 1)])))
             (Inr (demo_response 200 (JDict [(asc ''urlNotificationMetadata'', JDict [])])))
             (Inr (asc ''token'')))
          (asc ''urls.csv'') (asc ''results.csv'')
          (demo_world [[asc ''Name'', asc ''URL''], [asc ''a'', asc ''https://a.com/''],
                       [asc ''b'']]))
       (asc ''results.csv'') = None"
proof -
  let ?E = "demo_env (Inr (demo_response 200 (JDict [(asc ''task_id'', JInt 1)])))
             (Inr (demo_response 200 (JDict [(asc ''urlNotificationMetadata'', JDict [])])))
             (Inr (asc ''token''))"
  have strip_url: "strip (asc ''https://a.com/'') = asc ''https://a.com/''"
    by (simp add: strip_def is_space_def asc_def)
  have row1: "row_get_URL (dict_row [asc ''Name'', asc ''URL''] [asc ''a'', asc ''https://a.com/''])
                = Some (asc ''https://a.com/'')"
    by (simp add: row_get_URL_def dict_row_def asc_def)
  have row2: "row_get_URL (dict_row [asc ''Name'', asc ''URL''] [asc ''b'']) = None"
    by (simp add: row_get_URL_def dict_row_def asc_def)
  have names: "reader_fieldnames [[asc ''Name'', asc ''URL''], [asc ''a'', asc ''https://a.com/''],
                       [asc ''b'']] = Some [asc ''Name'', asc ''URL'']"
    by (simp add: reader_fieldnames_def normalize_fieldname_def strip_def is_space_def asc_def)
  have loop: "for_each_url ?E (JInt 7) (asc ''https:example.com:443'') [asc ''Name'', asc ''URL'']
          [[asc ''a'', asc ''https://a.com/''], [asc ''b'']]
          \<lparr>results = [], total_urls = 0, processed_urls = 0, calls = tr\<rparr>
     = (Some AttributeError,
        \<lparr>results = [\<lparr>row_url = asc ''https://a.com/'',
                      yandex_status = st_success, yandex_error = [],
                      google_status = st_success, google_error = []\<rparr>],
         total_urls = 2, processed_urls = 1,
         calls = tr @ [HttpPost (yandex_request ?E (JInt 7) (asc ''https:example.com:443'')
                                  (asc ''https://a.com/'')),
                       TokenRefresh,
                       HttpPost (google_request (asc ''token'') (asc ''https://a.com/'')
                                  (asc ''URL_UPDATED'')),
                       Sleep]\<rparr>)" for tr
    by (simp add: process_row_def row1 row2 strip_url demo_yandex_task
        demo_google_empty_envelope error_or_empty_def Let_def)
      (simp add: asc_def)
  have run: "files (process_urls ?E (asc ''urls.csv'') (asc ''results.csv'')
          (demo_world [[asc ''Name'', asc ''URL''], [asc ''a'', asc ''https://a.com/''],
                       [asc ''b'']])) (asc ''results.csv'') = None"
    by (simp add: process_urls_def demo_host_id demo_user_id demo_world_def names loop Let_def
        del: for_each_url.simps)
      (simp add: asc_def)
  show ?thesis
    using run by (simp add: loop skipped_rows_def del: for_each_url.simps)
qed

text \<open>
  Claim C4 at an input where the code departs from it. The token refresh raises. Then
  \<open>publish_url_google\<close> raises too instead of returning a Failure, since the token is
  fetched before its \<open>try\<close> statement; the exception ends the loop at the first URL, the
  second URL is never submitted, and the run ends without writing the output.
\<close>

theorem token_failure_aborts_run:
  "fst (publish_url_google
          (demo_env (Inr (demo_response 200 (JDict [(asc ''task_id'', JInt 1)])))
             (Inr (demo_response 200 (JDict [(asc ''urlNotificationMetadata'', JDict [])])))
             (Inl (LibError (asc ''refresh failed''))))
          (asc ''https://a.com/'') (asc ''URL_UPDATED'') [])
     = Inl (LibError (asc ''refresh failed''))
   \<and> files (process_urls
          (demo_env (Inr (demo_response 200 (JDict [(asc ''task_id'', JInt 1)])))
             (Inr (demo_response 200 (JDict [(asc ''urlNotificationMetadata'', JDict [])])))
             (Inl (LibError (asc ''refresh failed''))))
          (asc ''urls.csv'') (asc ''results.csv'')
          (demo_world [[asc ''URL''], [asc ''https://a.com/''], [asc ''https://b.com/'']]))
       (asc ''results.csv'') = None
   \<and> trace (process_urls
          (demo_env (Inr (demo_response 200 (JDict [(asc ''task_id'', JInt 1)])))
             (Inr (demo_response 200 (JDict [(asc ''urlNotificationMetadata'', JDict [])])))
             (Inl (LibError (asc ''refresh failed''))))
          (asc ''urls.csv'') (asc ''results.csv'')
          (demo_world [[asc ''URL''], [asc ''https://a.com/''], [asc ''https://b.com/'']]))
     = [HttpGet (user_request
          (demo_env (Inr (demo_response 200 (JDict [(asc ''task_id'', JInt 1)])))
             (Inr (demo_response 200 (JDict [(asc ''urlNotificationMetadata'', JDict [])])))
             (Inl (LibError (asc ''refresh failed''))))),
        FileExists (asc ''urls.csv''),
        FileRead (asc ''urls.csv''),
        HttpPost (yandex_request
          (demo_env (Inr (demo_response 200 (JDict [(asc ''task_id'', JInt 1)])))
             (Inr (demo_response 200 (JDict [(asc ''urlNotificationMetadata'', JDict [])])))
             (Inl (LibError (asc ''refresh failed''))))
          (JInt 7) (asc ''https:example.com:443'') (asc ''https://a.com/'')),
        TokenRefresh]"
proof -
  let ?E = "demo_env (Inr (demo_response 200 (JDict [(asc ''task_id'', JInt 1)])))
             (Inr (demo_response 200 (JDict [(asc ''urlNotificationMetadata'', JDict [])])))
             (Inl (LibError (asc ''refresh failed'')))"
  let ?t = "[[asc ''URL''], [asc ''https://a.com/''], [asc ''https://b.com/'']]"
  have strip_url: "strip (asc ''https://a.com/'') = asc ''https://a.com/''"
    by (simp add: strip_def is_space_def asc_def)
  have row1: "row_get_URL (dict_row [asc ''URL''] [asc ''https://a.com/''])
                = Some (asc ''https://a.com/'')"
    by (simp add: row_get_URL_def dict_row_def)
  have names: "reader_fieldnames ?t = Some [asc ''URL'']"
    by (simp add: reader_fieldnames_def normalize_fieldname_def strip_def is_space_def asc_def)
  have nonempty: "asc ''https://a.com/'' \<noteq> []"
    by (simp add: asc_def)
  have loop: "for_each_url ?E (JInt 7) (asc ''https:example.com:443'') [asc ''URL'']
          [[asc ''https://a.com/''], [asc ''https://b.com/'']]
          \<lparr>results = [], total_urls = 0, processed_urls = 0, calls = tr\<rparr>
     = (Some (LibError (asc ''refresh failed'')),
        \<lparr>results = [], total_urls = 1, processed_urls = 0,
         calls = tr @ [HttpPost (yandex_request ?E (JInt 7) (asc ''https:example.com:443'')
                                  (asc ''https://a.com/'')),
                       TokenRefresh]\<rparr>)" for tr
    using nonempty
    by (simp add: process_row_def row1 strip_url demo_yandex_task demo_google_token_fails
        Let_def)
  have run: "process_urls ?E (asc ''urls.csv'') (asc ''results.csv'') (demo_world ?t)
     = \<lparr>files = [asc ''urls.csv'' \<mapsto> ?t],
        trace = [HttpGet (user_request ?E), FileExists (asc ''urls.csv''),
                 FileRead (asc ''urls.csv''),
                 HttpPost (yandex_request ?E (JInt 7) (asc ''https:example.com:443'')
                             (asc ''https://a.com/'')),
                 TokenRefresh]\<rparr>"
    by (simp add: process_urls_def demo_host_id demo_user_id demo_world_def names loop Let_def
        del: for_each_url.simps)
  have names_differ: "asc ''results.csv'' \<noteq> asc ''urls.csv''"
    by (simp add: asc_def)
  show ?thesis
    by (simp add: run names_differ demo_google_token_fails)
qed

end
